theory Spec2Isabelle
  imports Main
begin

section \<open>Doctor-patient portal: the request handlers of backend/server.js\<close>

text \<open>
  The handlers of \<^verbatim>\<open>src/backend/server.js\<close> are embedded as functions from a request and
  the content of the database to a response and the new content of the database.

  \<^item> The three mongoose collections are lists of records, in insertion order;
    \<^verbatim>\<open>findOne\<close> and \<^verbatim>\<open>findById\<close> return the first match.
  \<^item> A request body is a record of optional fields: \<open>None\<close> is a field absent from the
    body (JavaScript's \<^verbatim>\<open>undefined\<close>). A field that is present has the type its schema
    path declares (a string, a number, an identifier, a list of availability entries).
  \<^item> An ObjectId is a natural number; a new document takes the next one from a counter
    kept with the collections.
  \<^item> What the handlers get from outside the database is a record \<open>env\<close>: the signing
    secret of the process, the clock, and bcrypt's two functions.
  \<^item> Every awaited call of a handler may reject, which the handler's \<^verbatim>\<open>catch\<close> turns into a
    500 response. The argument \<open>f\<close> of a handler names the awaited call that rejects, counted
    from 1 in the order the handler makes them (\<open>None\<close>: none rejects).
  \<^item> \<^verbatim>\<open>sendEmail\<close> is fire-and-forget, logs its own failure and touches no record; it is
    left out.
\<close>

subsection \<open>Session tokens (jsonwebtoken)\<close>

datatype payload = DoctorId nat | PatientId nat

record jwt =
  claims :: payload
  iat :: nat
  exp :: nat
  signed_with :: string

subsection \<open>JSON responses\<close>

datatype json =
    JNull
  | JBool bool
  | JNum int
  | JStr string
  | JId nat
  | JToken jwt
  | JArr "json list"
  | JObj "(string \<times> json) list"

record response =
  status :: nat
  body :: json

text \<open>\<^verbatim>\<open>res.status(n).json({ message: m })\<close>\<close>

definition message :: "nat \<Rightarrow> string \<Rightarrow> response" where
  "message n m = \<lparr>status = n, body = JObj [(''message'', JStr m)]\<rparr>"

text \<open>Whether a key occurs in a JSON value, at any depth.\<close>

fun has_field :: "string \<Rightarrow> json \<Rightarrow> bool"
  and has_field_list :: "string \<Rightarrow> json list \<Rightarrow> bool"
  and has_field_obj :: "string \<Rightarrow> (string \<times> json) list \<Rightarrow> bool" where
  "has_field k (JArr xs) = has_field_list k xs"
| "has_field k (JObj kvs) = has_field_obj k kvs"
| "has_field k JNull = False"
| "has_field k (JBool b) = False"
| "has_field k (JNum n) = False"
| "has_field k (JStr s) = False"
| "has_field k (JId i) = False"
| "has_field k (JToken t) = False"
| "has_field_list k [] = False"
| "has_field_list k (x # xs) = (has_field k x \<or> has_field_list k xs)"
| "has_field_obj k [] = False"
| "has_field_obj k (kv # kvs) = (fst kv = k \<or> has_field k (snd kv) \<or> has_field_obj k kvs)"

text \<open>The value of a key of a JSON object.\<close>

definition field :: "string \<Rightarrow> json \<Rightarrow> json option" where
  "field k j = (case j of JObj kvs \<Rightarrow> map_of kvs k | _ \<Rightarrow> None)"

text \<open>The entries of the \<^verbatim>\<open>availability\<close> array of a response.\<close>

definition availability_of :: "response \<Rightarrow> json list" where
  "availability_of r = (case field ''availability'' (body r) of Some (JArr ys) \<Rightarrow> ys | _ \<Rightarrow> [])"

subsection \<open>Schemas (lines 23-65)\<close>

text \<open>AvailabilitySchema does not switch \<^verbatim>\<open>_id\<close> off: every entry of an availability list
  is a subdocument with an \<^verbatim>\<open>_id\<close> of its own.\<close>

record availability =
  av_id :: nat
  day :: string
  startTime :: string
  endTime :: string
  location :: string

record doctor =
  d_id :: nat
  d_name :: string
  d_email :: string
  d_password :: string
  specialty :: string
  experience :: int
  d_location :: string
  d_availability :: "availability list"

text \<open>
  \<open>p_appointments\<close> is the array the booking and cancellation handlers \<^verbatim>\<open>$push\<close> to and
  \<^verbatim>\<open>$pull\<close> from. PatientSchema has its declaration commented out (lines 53-54), and
  whether the collection then keeps the array is the store's choice: see
  \<open>keeps_appointments\<close> below.
\<close>

record patient =
  p_id :: nat
  p_name :: string
  p_email :: string
  p_password :: string
  age :: int
  gender :: string
  phone :: string
  address :: string
  p_appointments :: "nat list"

text \<open>AppointmentSchema declares no \<^verbatim>\<open>patientId\<close>: the one the booking handler passes to
  the constructor is not part of the document.\<close>

record appointment =
  a_id :: nat
  patientName :: string
  patientEmail :: string
  doctorId :: nat
  timeSlot :: string
  a_status :: string

record store =
  doctors :: "doctor list"
  patients :: "patient list"
  appointments :: "appointment list"
  next_id :: nat

definition init_store :: store where
  "init_store = \<lparr>doctors = [], patients = [], appointments = [], next_id = 0\<rparr>"

subsection \<open>The environment of a request\<close>

record env =
  JWT_SECRET :: "string option"
  now :: nat
  bcrypt_hash :: "string \<Rightarrow> string"
  bcrypt_compare :: "string \<Rightarrow> string \<Rightarrow> bool"
  keeps_appointments :: bool

text \<open>
  \<open>JWT_SECRET\<close> is \<^verbatim>\<open>process.env.JWT_SECRET\<close>; \<open>now\<close> is the clock in seconds;
  \<open>bcrypt_hash p\<close> is \<^verbatim>\<open>bcrypt.hash(p, 10)\<close> and \<open>bcrypt_compare p h\<close> is
  \<^verbatim>\<open>bcrypt.compare(p, h)\<close>; \<open>keeps_appointments\<close> says whether the Patient collection
  applies updates to the undeclared \<^verbatim>\<open>appointments\<close> path (a strict schema drops them).
\<close>

subsection \<open>Truthiness of body fields\<close>

definition truthy_str :: "string option \<Rightarrow> bool" where
  "truthy_str v = (case v of None \<Rightarrow> False | Some s \<Rightarrow> s \<noteq> [])"

definition truthy_num :: "int option \<Rightarrow> bool" where
  "truthy_num v = (case v of None \<Rightarrow> False | Some n \<Rightarrow> n \<noteq> 0)"

text \<open>An array, and an identifier (a non-empty string of hex digits), is truthy when present.\<close>

definition truthy_ref :: "'a option \<Rightarrow> bool" where
  "truthy_ref v = (case v of None \<Rightarrow> False | Some x \<Rightarrow> True)"

subsection \<open>Collection primitives\<close>

fun deleteOne :: "('a \<Rightarrow> bool) \<Rightarrow> 'a list \<Rightarrow> 'a list" where
  "deleteOne P [] = []"
| "deleteOne P (x # xs) = (if P x then xs else x # deleteOne P xs)"

fun updateOne :: "('a \<Rightarrow> bool) \<Rightarrow> ('a \<Rightarrow> 'a) \<Rightarrow> 'a list \<Rightarrow> 'a list" where
  "updateOne P u [] = []"
| "updateOne P u (x # xs) = (if P x then u x # xs else x # updateOne P u xs)"

definition Doctor_findOne :: "string \<Rightarrow> doctor list \<Rightarrow> doctor option" where
  "Doctor_findOne email ds = List.find (\<lambda>d. d_email d = email) ds"

definition Patient_findOne :: "string \<Rightarrow> patient list \<Rightarrow> patient option" where
  "Patient_findOne email ps = List.find (\<lambda>p. p_email p = email) ps"

definition Doctor_findById :: "nat \<Rightarrow> doctor list \<Rightarrow> doctor option" where
  "Doctor_findById i ds = List.find (\<lambda>d. d_id d = i) ds"

definition Appointment_findOne :: "nat \<Rightarrow> string \<Rightarrow> appointment list \<Rightarrow> appointment option" where
  "Appointment_findOne did slot as = List.find (\<lambda>a. doctorId a = did \<and> timeSlot a = slot) as"

definition Appointment_findById :: "nat \<Rightarrow> appointment list \<Rightarrow> appointment option" where
  "Appointment_findById i as = List.find (\<lambda>a. a_id a = i) as"

definition Appointment_findByIdAndDelete :: "nat \<Rightarrow> appointment list \<Rightarrow> appointment list" where
  "Appointment_findByIdAndDelete i as = deleteOne (\<lambda>a. a_id a = i) as"

text \<open>
  \<^verbatim>\<open>Patient.findByIdAndUpdate(id, { $push: { appointments: a } })\<close> and the same with
  \<^verbatim>\<open>$pull\<close>. The identifier comes from the request body and may be absent; an absent
  identifier selects no document. \<^verbatim>\<open>$push\<close> appends, \<^verbatim>\<open>$pull\<close> removes every occurrence.
\<close>

definition Patient_push :: "bool \<Rightarrow> nat option \<Rightarrow> nat \<Rightarrow> patient list \<Rightarrow> patient list" where
  "Patient_push keeps pid a ps =
     (if keeps
      then updateOne (\<lambda>p. Some (p_id p) = pid)
             (\<lambda>p. p\<lparr>p_appointments := p_appointments p @ [a]\<rparr>) ps
      else ps)"

definition Patient_pull :: "bool \<Rightarrow> nat option \<Rightarrow> nat \<Rightarrow> patient list \<Rightarrow> patient list" where
  "Patient_pull keeps pid a ps =
     (if keeps
      then updateOne (\<lambda>p. Some (p_id p) = pid)
             (\<lambda>p. p\<lparr>p_appointments := removeAll a (p_appointments p)\<rparr>) ps
      else ps)"

subsection \<open>Casting an availability list to AvailabilitySchema (lines 25-30)\<close>

text \<open>
  An entry of the list a request body carries: the paths the schema declares, each absent
  or a string, the \<^verbatim>\<open>_id\<close> if the entry has one, and the keys the schema does not declare.
\<close>

record availability_in =
  in_id :: "nat option"
  in_day :: "string option"
  in_startTime :: "string option"
  in_endTime :: "string option"
  in_location :: "string option"
  in_extra :: "(string \<times> json) list"

text \<open>
  \<^verbatim>\<open>day\<close>, \<^verbatim>\<open>startTime\<close> and \<^verbatim>\<open>endTime\<close> are \<^verbatim>\<open>required: true\<close>: an entry without one of
  them, or with an empty one, fails validation when the document is saved.
  \<^verbatim>\<open>location\<close> has \<^verbatim>\<open>default: "Office"\<close>, which an entry without a location takes.
  An entry keeps the \<^verbatim>\<open>_id\<close> it carries and is given a new one otherwise. The schema is
  strict (mongoose's default): keys it does not declare are dropped.
\<close>

definition cast_entry :: "nat \<Rightarrow> availability_in \<Rightarrow> availability" where
  "cast_entry i x =
     \<lparr>av_id = i, day = the (in_day x), startTime = the (in_startTime x),
      endTime = the (in_endTime x),
      location = (case in_location x of None \<Rightarrow> ''Office'' | Some l \<Rightarrow> l)\<rparr>"

text \<open>The list as cast, and the counter of identifiers after it; \<open>None\<close> when an entry fails
  validation. \<open>n\<close> is the counter before.\<close>

fun cast_availability :: "nat \<Rightarrow> availability_in list \<Rightarrow> (availability list \<times> nat) option" where
  "cast_availability n [] = Some ([], n)"
| "cast_availability n (x # xs) =
     (if truthy_str (in_day x) \<and> truthy_str (in_startTime x) \<and> truthy_str (in_endTime x)
      then (case cast_availability (case in_id x of None \<Rightarrow> Suc n | Some i \<Rightarrow> n) xs of
              None \<Rightarrow> None
            | Some r \<Rightarrow>
                Some (cast_entry (case in_id x of None \<Rightarrow> n | Some i \<Rightarrow> i) x # fst r, snd r))
      else None)"

subsection \<open>Documents as JSON\<close>

definition availability_json :: "availability \<Rightarrow> json" where
  "availability_json a =
     JObj [(''_id'', JId (av_id a)), (''day'', JStr (day a)),
           (''startTime'', JStr (startTime a)), (''endTime'', JStr (endTime a)),
           (''location'', JStr (location a))]"

text \<open>The paths of an AvailabilitySchema subdocument.\<close>

definition declared_keys :: "string list" where
  "declared_keys = [''_id'', ''day'', ''startTime'', ''endTime'', ''location'']"

text \<open>An availability entry of a request body as JSON: the declared paths it has, then its
  other keys.\<close>

definition opt_field :: "string \<Rightarrow> string option \<Rightarrow> (string \<times> json) list" where
  "opt_field k v = (case v of None \<Rightarrow> [] | Some x \<Rightarrow> [(k, JStr x)])"

definition availability_in_json :: "availability_in \<Rightarrow> json" where
  "availability_in_json x =
     JObj ((case in_id x of None \<Rightarrow> [] | Some i \<Rightarrow> [(''_id'', JId i)]) @
           opt_field ''day'' (in_day x) @ opt_field ''startTime'' (in_startTime x) @
           opt_field ''endTime'' (in_endTime x) @ opt_field ''location'' (in_location x) @
           filter (\<lambda>kv. fst kv \<notin> set declared_keys) (in_extra x))"

definition doctor_doc :: "doctor \<Rightarrow> (string \<times> json) list" where
  "doctor_doc d =
     [(''_id'', JId (d_id d)), (''name'', JStr (d_name d)), (''email'', JStr (d_email d)),
      (''password'', JStr (d_password d)), (''specialty'', JStr (specialty d)),
      (''experience'', JNum (experience d)), (''location'', JStr (d_location d)),
      (''availability'', JArr (map availability_json (d_availability d)))]"

definition appointment_doc :: "appointment \<Rightarrow> (string \<times> json) list" where
  "appointment_doc a =
     [(''_id'', JId (a_id a)), (''patientName'', JStr (patientName a)),
      (''patientEmail'', JStr (patientEmail a)), (''doctorId'', JId (doctorId a)),
      (''timeSlot'', JStr (timeSlot a)), (''status'', JStr (a_status a))]"

text \<open>\<^verbatim>\<open>.select("-password")\<close>: the document without the named path.\<close>

definition select_minus :: "string \<Rightarrow> (string \<times> json) list \<Rightarrow> (string \<times> json) list" where
  "select_minus k kvs = filter (\<lambda>kv. fst kv \<noteq> k) kvs"

subsection \<open>Signing and verifying tokens; the middleware (lines 69-82)\<close>

text \<open>\<^verbatim>\<open>process.env.JWT_SECRET || "mysecret"\<close>\<close>

definition secret :: "env \<Rightarrow> string" where
  "secret e = (if truthy_str (JWT_SECRET e) then the (JWT_SECRET e) else ''mysecret'')"

text \<open>\<^verbatim>\<open>jwt.sign(p, key, { expiresIn: "1h" })\<close> at time \<open>t\<close>.\<close>

definition jwt_sign :: "payload \<Rightarrow> string \<Rightarrow> nat \<Rightarrow> jwt" where
  "jwt_sign p key t = \<lparr>claims = p, iat = t, exp = t + 3600, signed_with = key\<rparr>"

text \<open>\<^verbatim>\<open>jwt.verify(tok, key)\<close> at time \<open>t\<close> returns the payload, or throws when the signature is
  not by \<open>key\<close> or the token has expired.\<close>

definition jwt_verify :: "jwt \<Rightarrow> string \<Rightarrow> nat \<Rightarrow> payload option" where
  "jwt_verify tok key t =
     (if signed_with tok = key \<and> t < exp tok then Some (claims tok) else None)"

text \<open>The token is the one the \<^verbatim>\<open>Authorization\<close> header carries after its scheme, if any.
  \<open>None\<close> is \<^verbatim>\<open>next()\<close>: the handler runs.\<close>

definition authenticateToken :: "env \<Rightarrow> jwt option \<Rightarrow> response option" where
  "authenticateToken e token =
     (case token of
        None \<Rightarrow> Some (message 401 ''Access denied'')
      | Some tok \<Rightarrow>
          (case jwt_verify tok (secret e) (now e) of
             Some verified \<Rightarrow> None
           | None \<Rightarrow> Some (message 403 ''Invalid token'')))"

subsection \<open>Registration (lines 84-184)\<close>

record registerDoctor_body =
  rd_name :: "string option"
  rd_email :: "string option"
  rd_password :: "string option"
  rd_specialty :: "string option"
  rd_experience :: "int option"
  rd_location :: "string option"
  rd_availability :: "availability_in list option"

text \<open>Awaited calls: 1 \<^verbatim>\<open>Doctor.findOne\<close>, 2 \<^verbatim>\<open>bcrypt.hash\<close>, 3 \<^verbatim>\<open>doctor.save\<close> (which also
  rejects when the availability list fails validation). The unique index on \<^verbatim>\<open>email\<close>
  has nothing to refuse when the handler saves: call 1 found no record with the email.\<close>

definition registerDoctor ::
  "env \<Rightarrow> nat option \<Rightarrow> registerDoctor_body \<Rightarrow> store \<Rightarrow> response \<times> store" where
  "registerDoctor e f b s =
     (if \<not> truthy_str (rd_name b) \<or> \<not> truthy_str (rd_email b) \<or> \<not> truthy_str (rd_password b) \<or>
         \<not> truthy_str (rd_specialty b) \<or> \<not> truthy_num (rd_experience b) \<or>
         \<not> truthy_str (rd_location b) \<or> \<not> truthy_ref (rd_availability b)
      then (message 400 ''All fields are required.'', s)
      else if f = Some 1 then (message 500 ''Internal server error.'', s)
      else (case Doctor_findOne (the (rd_email b)) (doctors s) of
              Some existingDoctor \<Rightarrow> (message 400 ''Doctor with this email already exists.'', s)
            | None \<Rightarrow>
                if f = Some 2 then (message 500 ''Internal server error.'', s)
                else (case cast_availability (Suc (next_id s)) (the (rd_availability b)) of
                        None \<Rightarrow> (message 500 ''Internal server error.'', s)
                      | Some cast \<Rightarrow>
                          if f = Some 3 then (message 500 ''Internal server error.'', s)
                          else
                            let doctor = \<lparr>d_id = next_id s, d_name = the (rd_name b),
                                          d_email = the (rd_email b),
                                          d_password = bcrypt_hash e (the (rd_password b)),
                                          specialty = the (rd_specialty b),
                                          experience = the (rd_experience b),
                                          d_location = the (rd_location b),
                                          d_availability = fst cast\<rparr>
                            in (\<lparr>status = 201,
                                 body = JObj [(''message'', JStr ''Doctor registered successfully!''),
                                              (''doctor'', JObj [(''id'', JId (d_id doctor)),
                                                                 (''name'', JStr (d_name doctor)),
                                                                 (''email'', JStr (d_email doctor))])]\<rparr>,
                                s\<lparr>doctors := doctors s @ [doctor], next_id := snd cast\<rparr>))))"

record registerPatient_body =
  rp_name :: "string option"
  rp_email :: "string option"
  rp_password :: "string option"
  rp_age :: "int option"
  rp_gender :: "string option"
  rp_phone :: "string option"
  rp_address :: "string option"

text \<open>Awaited calls: 1 \<^verbatim>\<open>Patient.findOne\<close>, 2 \<^verbatim>\<open>bcrypt.hash\<close>, 3 \<^verbatim>\<open>patient.save\<close>.\<close>

definition registerPatient ::
  "env \<Rightarrow> nat option \<Rightarrow> registerPatient_body \<Rightarrow> store \<Rightarrow> response \<times> store" where
  "registerPatient e f b s =
     (if \<not> truthy_str (rp_name b) \<or> \<not> truthy_str (rp_email b) \<or> \<not> truthy_str (rp_password b) \<or>
         \<not> truthy_num (rp_age b) \<or> \<not> truthy_str (rp_gender b) \<or> \<not> truthy_str (rp_phone b) \<or>
         \<not> truthy_str (rp_address b)
      then (message 400 ''All fields are required.'', s)
      else if f = Some 1 then (message 500 ''Internal server error.'', s)
      else (case Patient_findOne (the (rp_email b)) (patients s) of
              Some existingPatient \<Rightarrow> (message 400 ''Patient with this email already exists.'', s)
            | None \<Rightarrow>
                if f = Some 2 \<or> f = Some 3 then (message 500 ''Internal server error.'', s)
                else
                  let patient = \<lparr>p_id = next_id s, p_name = the (rp_name b),
                                 p_email = the (rp_email b),
                                 p_password = bcrypt_hash e (the (rp_password b)),
                                 age = the (rp_age b), gender = the (rp_gender b),
                                 phone = the (rp_phone b), address = the (rp_address b),
                                 p_appointments = []\<rparr>
                  in (message 201 ''Patient registered successfully!'',
                      s\<lparr>patients := patients s @ [patient], next_id := Suc (next_id s)\<rparr>)))"

subsection \<open>Login (lines 187-258)\<close>

record login_body =
  l_email :: "string option"
  l_password :: "string option"

text \<open>Awaited calls: 1 \<^verbatim>\<open>Patient.findOne\<close>, 2 \<^verbatim>\<open>bcrypt.compare\<close>.\<close>

definition loginPatient ::
  "env \<Rightarrow> nat option \<Rightarrow> login_body \<Rightarrow> store \<Rightarrow> response \<times> store" where
  "loginPatient e f b s =
     (if \<not> truthy_str (l_email b) \<or> \<not> truthy_str (l_password b)
      then (message 400 ''Email and password required.'', s)
      else if f = Some 1 then (message 500 ''Internal server error.'', s)
      else (case Patient_findOne (the (l_email b)) (patients s) of
              None \<Rightarrow> (message 401 ''Patient not found.'', s)
            | Some patient \<Rightarrow>
                if f = Some 2 then (message 500 ''Internal server error.'', s)
                else if \<not> bcrypt_compare e (the (l_password b)) (p_password patient)
                then (message 401 ''Invalid password.'', s)
                else
                  (\<lparr>status = 200,
                    body = JObj [(''success'', JBool True),
                                 (''message'', JStr ''Patient logged in successfully!''),
                                 (''token'', JToken (jwt_sign (PatientId (p_id patient)) (secret e) (now e))),
                                 (''patient'', JObj [(''id'', JId (p_id patient)),
                                                     (''name'', JStr (p_name patient)),
                                                     (''email'', JStr (p_email patient)),
                                                     (''age'', JNum (age patient)),
                                                     (''gender'', JStr (gender patient)),
                                                     (''phone'', JStr (phone patient)),
                                                     (''address'', JStr (address patient))])]\<rparr>,
                   s)))"

text \<open>
  The doctor's login has no check of the body. A query by an absent email selects no
  document, and \<^verbatim>\<open>bcrypt.compare\<close> rejects a password that is not a string.
  Awaited calls: 1 \<^verbatim>\<open>Doctor.findOne\<close>, 2 \<^verbatim>\<open>bcrypt.compare\<close>.
\<close>

definition loginDoctor ::
  "env \<Rightarrow> nat option \<Rightarrow> login_body \<Rightarrow> store \<Rightarrow> response \<times> store" where
  "loginDoctor e f b s =
     (if f = Some 1 then (message 500 ''Server error.'', s)
      else (case (case l_email b of None \<Rightarrow> None | Some email \<Rightarrow> Doctor_findOne email (doctors s)) of
              None \<Rightarrow> (message 401 ''Doctor not found.'', s)
            | Some doctor \<Rightarrow>
                if f = Some 2 \<or> l_password b = None then (message 500 ''Server error.'', s)
                else if \<not> bcrypt_compare e (the (l_password b)) (d_password doctor)
                then (message 401 ''Invalid password.'', s)
                else
                  (\<lparr>status = 200,
                    body = JObj [(''success'', JBool True),
                                 (''message'', JStr ''Doctor logged in successfully!''),
                                 (''token'', JToken (jwt_sign (DoctorId (d_id doctor)) (secret e) (now e)))]\<rparr>,
                   s)))"

subsection \<open>Availability (lines 260-301)\<close>

text \<open>Awaited call: 1 \<^verbatim>\<open>Doctor.findById\<close>. The identifier is the path parameter.\<close>

definition getAvailability ::
  "env \<Rightarrow> nat option \<Rightarrow> jwt option \<Rightarrow> nat \<Rightarrow> store \<Rightarrow> response \<times> store" where
  "getAvailability e f token did s =
     (case authenticateToken e token of
        Some denied \<Rightarrow> (denied, s)
      | None \<Rightarrow>
          if f = Some 1 then (message 500 ''Server error.'', s)
          else (case Doctor_findById did (doctors s) of
                  None \<Rightarrow> (message 404 ''Doctor not found.'', s)
                | Some doctor \<Rightarrow>
                    (\<lparr>status = 200,
                      body = JObj [(''availability'',
                                    JArr (map availability_json (d_availability doctor)))]\<rparr>,
                     s)))"

record setAvailability_body =
  sa_doctorId :: "nat option"
  sa_availability :: "availability_in list option"

text \<open>Awaited calls: 1 \<^verbatim>\<open>Doctor.findById\<close>, 2 \<^verbatim>\<open>doctor.save\<close> (which also rejects when the
  list fails validation). \<^verbatim>\<open>Array.isArray\<close> holds of a list that is present.\<close>

definition setAvailability ::
  "env \<Rightarrow> nat option \<Rightarrow> jwt option \<Rightarrow> setAvailability_body \<Rightarrow> store \<Rightarrow> response \<times> store" where
  "setAvailability e f token b s =
     (case authenticateToken e token of
        Some denied \<Rightarrow> (denied, s)
      | None \<Rightarrow>
          if \<not> truthy_ref (sa_doctorId b) \<or> sa_availability b = None
          then (message 400 ''Invalid request format.'', s)
          else if f = Some 1 then (message 500 ''Server error.'', s)
          else (case Doctor_findById (the (sa_doctorId b)) (doctors s) of
                  None \<Rightarrow> (message 404 ''Doctor not found.'', s)
                | Some doctor \<Rightarrow>
                    (case cast_availability (next_id s) (the (sa_availability b)) of
                       None \<Rightarrow> (message 500 ''Server error.'', s)
                     | Some cast \<Rightarrow>
                         if f = Some 2 then (message 500 ''Server error.'', s)
                         else
                           (\<lparr>status = 200,
                             body = JObj [(''message'', JStr ''Availability updated successfully!''),
                                          (''doctor'',
                                           JObj [(''_id'', JId (d_id doctor)),
                                                 (''availability'',
                                                  JArr (map availability_json (fst cast)))])]\<rparr>,
                            s\<lparr>doctors := updateOne (\<lambda>d. d_id d = d_id doctor)
                                           (\<lambda>d. d\<lparr>d_availability := fst cast\<rparr>) (doctors s),
                              next_id := snd cast\<rparr>))))"

subsection \<open>Booking (lines 303-349)\<close>

record bookAppointment_body =
  b_doctorId :: "nat option"
  b_patientId :: "nat option"
  b_patientName :: "string option"
  b_patientEmail :: "string option"
  b_timeSlot :: "string option"

text \<open>\<^verbatim>\<open>new Appointment({ doctorId, patientId, patientName, patientEmail, timeSlot,
  status: "Booked" })\<close> with the identifier \<open>i\<close>.\<close>

definition new_Appointment :: "bookAppointment_body \<Rightarrow> nat \<Rightarrow> appointment" where
  "new_Appointment b i =
     \<lparr>a_id = i, patientName = the (b_patientName b), patientEmail = the (b_patientEmail b),
      doctorId = the (b_doctorId b), timeSlot = the (b_timeSlot b), a_status = ''Booked''\<rparr>"

definition booked :: "appointment \<Rightarrow> response" where
  "booked a =
     \<lparr>status = 201,
      body = JObj [(''message'', JStr ''Appointment booked successfully!''),
                   (''appointment'', JObj (appointment_doc a))]\<rparr>"

text \<open>Awaited calls: 1 \<^verbatim>\<open>Appointment.findOne\<close>, 2 \<^verbatim>\<open>appointment.save\<close>,
  3 \<^verbatim>\<open>Patient.findByIdAndUpdate\<close>. No transaction spans them: what call 2 wrote stays
  when call 3 rejects.\<close>

definition bookAppointment ::
  "env \<Rightarrow> nat option \<Rightarrow> bookAppointment_body \<Rightarrow> store \<Rightarrow> response \<times> store" where
  "bookAppointment e f b s =
     (if \<not> truthy_ref (b_doctorId b) \<or> \<not> truthy_ref (b_patientId b) \<or>
         \<not> truthy_str (b_patientName b) \<or> \<not> truthy_str (b_patientEmail b) \<or>
         \<not> truthy_str (b_timeSlot b)
      then (message 400 ''All fields are required.'', s)
      else if f = Some 1 then (message 500 ''Internal server error'', s)
      else (case Appointment_findOne (the (b_doctorId b)) (the (b_timeSlot b)) (appointments s) of
              Some existing \<Rightarrow> (message 400 ''Time slot already booked!'', s)
            | None \<Rightarrow>
                if f = Some 2 then (message 500 ''Internal server error'', s)
                else
                  let appointment = new_Appointment b (next_id s);
                      s1 = s\<lparr>appointments := appointments s @ [appointment],
                             next_id := Suc (next_id s)\<rparr>
                  in if f = Some 3 then (message 500 ''Internal server error'', s1)
                     else (booked appointment,
                           s1\<lparr>patients := Patient_push (keeps_appointments e) (b_patientId b)
                                            (a_id appointment) (patients s1)\<rparr>)))"

subsection \<open>Booking, one awaited call at a time\<close>

text \<open>
  The event loop runs a handler up to its next \<^verbatim>\<open>await\<close> and may then run another
  request. A booking in flight is at one of these points: not started; \<^verbatim>\<open>findOne\<close> has
  returned null; \<^verbatim>\<open>save\<close> has returned; responded. \<open>book_step\<close> runs the handler from one
  point to the next, each database call taking effect at once.
\<close>

datatype booking = Start | Checked | Saved appointment | Finished response

definition book_step ::
  "env \<Rightarrow> nat option \<Rightarrow> bookAppointment_body \<Rightarrow> booking \<times> store \<Rightarrow> booking \<times> store" where
  "book_step e f b c =
     (case c of
        (Start, s) \<Rightarrow>
          if \<not> truthy_ref (b_doctorId b) \<or> \<not> truthy_ref (b_patientId b) \<or>
             \<not> truthy_str (b_patientName b) \<or> \<not> truthy_str (b_patientEmail b) \<or>
             \<not> truthy_str (b_timeSlot b)
          then (Finished (message 400 ''All fields are required.''), s)
          else if f = Some 1 then (Finished (message 500 ''Internal server error''), s)
          else (case Appointment_findOne (the (b_doctorId b)) (the (b_timeSlot b)) (appointments s) of
                  Some existing \<Rightarrow> (Finished (message 400 ''Time slot already booked!''), s)
                | None \<Rightarrow> (Checked, s))
      | (Checked, s) \<Rightarrow>
          if f = Some 2 then (Finished (message 500 ''Internal server error''), s)
          else
            let appointment = new_Appointment b (next_id s)
            in (Saved appointment,
                s\<lparr>appointments := appointments s @ [appointment], next_id := Suc (next_id s)\<rparr>)
      | (Saved appointment, s) \<Rightarrow>
          if f = Some 3 then (Finished (message 500 ''Internal server error''), s)
          else (Finished (booked appointment),
                s\<lparr>patients := Patient_push (keeps_appointments e) (b_patientId b)
                                (a_id appointment) (patients s)\<rparr>)
      | (Finished r, s) \<Rightarrow> (Finished r, s))"

text \<open>Requests in flight, and a schedule: the list of the requests the event loop resumes, in
  order, each by its index.\<close>

fun run_schedule ::
  "env \<Rightarrow> nat list \<Rightarrow> (bookAppointment_body \<times> booking) list \<times> store \<Rightarrow>
     (bookAppointment_body \<times> booking) list \<times> store" where
  "run_schedule e [] c = c"
| "run_schedule e (i # sched) (ts, s) =
     (if i < length ts
      then (case book_step e None (fst (ts ! i)) (snd (ts ! i), s) of
              (st, s') \<Rightarrow> run_schedule e sched (ts[i := (fst (ts ! i), st)], s'))
      else run_schedule e sched (ts, s))"

subsection \<open>Cancellation (lines 424-476)\<close>

text \<open>
  A session holds the content of the database outside the transaction and the content as
  the transaction sees it. A call made with the session works on the second; committing
  makes it the content of the database, aborting drops it. The session's own calls
  (start, commit, abort, end) are taken to succeed.
\<close>

record session =
  outside :: store
  inside :: store

definition startTransaction :: "store \<Rightarrow> session" where
  "startTransaction s = \<lparr>outside = s, inside = s\<rparr>"

definition commitTransaction :: "session \<Rightarrow> store" where
  "commitTransaction t = inside t"

definition abortTransaction :: "session \<Rightarrow> store" where
  "abortTransaction t = outside t"

record cancelAppointment_body =
  c_appointmentId :: "nat option"
  c_patientId :: "nat option"
  c_patientEmail :: "string option"

text \<open>Awaited calls inside the transaction: 1 \<^verbatim>\<open>Appointment.findById\<close>,
  2 \<^verbatim>\<open>Appointment.findByIdAndDelete\<close>, 3 \<^verbatim>\<open>Patient.findByIdAndUpdate\<close>.\<close>

definition cancelAppointment ::
  "env \<Rightarrow> nat option \<Rightarrow> jwt option \<Rightarrow> cancelAppointment_body \<Rightarrow> store \<Rightarrow> response \<times> store" where
  "cancelAppointment e f token b s =
     (case authenticateToken e token of
        Some denied \<Rightarrow> (denied, s)
      | None \<Rightarrow>
          let t = startTransaction s in
          if \<not> truthy_ref (c_appointmentId b)
          then (message 400 ''Appointment ID required.'', abortTransaction t)
          else if f = Some 1 then (message 500 ''Internal server error.'', abortTransaction t)
          else (case Appointment_findById (the (c_appointmentId b)) (appointments (inside t)) of
                  None \<Rightarrow> (message 404 ''Appointment not found.'', abortTransaction t)
                | Some appointment \<Rightarrow>
                    if f = Some 2 then (message 500 ''Internal server error.'', abortTransaction t)
                    else
                      let t1 = t\<lparr>inside := (inside t)\<lparr>appointments :=
                                    Appointment_findByIdAndDelete (the (c_appointmentId b))
                                      (appointments (inside t))\<rparr>\<rparr>
                      in if f = Some 3
                         then (message 500 ''Internal server error.'', abortTransaction t1)
                         else
                           let t2 = t1\<lparr>inside := (inside t1)\<lparr>patients :=
                                         Patient_pull (keeps_appointments e) (c_patientId b)
                                           (the (c_appointmentId b)) (patients (inside t1))\<rparr>\<rparr>
                           in (message 200 ''Appointment cancelled successfully!'',
                               commitTransaction t2)))"

subsection \<open>Doctor search (lines 478-487)\<close>

text \<open>Awaited call: 1 \<^verbatim>\<open>Doctor.find().select("-password")\<close>.\<close>

definition searchDoctors :: "nat option \<Rightarrow> store \<Rightarrow> response \<times> store" where
  "searchDoctors f s =
     (if f = Some 1 then (message 500 ''Internal server error.'', s)
      else (\<lparr>status = 200,
             body = JArr (map (\<lambda>d. JObj (select_minus ''password'' (doctor_doc d))) (doctors s))\<rparr>,
            s))"

subsection \<open>The routes\<close>

datatype request =
    RegisterDoctor registerDoctor_body
  | RegisterPatient registerPatient_body
  | LoginPatient login_body
  | LoginDoctor login_body
  | GetAvailability "jwt option" nat
  | SetAvailability "jwt option" setAvailability_body
  | BookAppointment bookAppointment_body
  | CancelAppointment "jwt option" cancelAppointment_body
  | SearchDoctors

fun handle :: "env \<Rightarrow> nat option \<Rightarrow> request \<Rightarrow> store \<Rightarrow> response \<times> store" where
  "handle e f (RegisterDoctor b) s = registerDoctor e f b s"
| "handle e f (RegisterPatient b) s = registerPatient e f b s"
| "handle e f (LoginPatient b) s = loginPatient e f b s"
| "handle e f (LoginDoctor b) s = loginDoctor e f b s"
| "handle e f (GetAvailability token did) s = getAvailability e f token did s"
| "handle e f (SetAvailability token b) s = setAvailability e f token b s"
| "handle e f (BookAppointment b) s = bookAppointment e f b s"
| "handle e f (CancelAppointment token b) s = cancelAppointment e f token b s"
| "handle e f SearchDoctors s = searchDoctors f s"

text \<open>A history of the server: requests handled one after the other, each with its own
  environment and its own rejected call.\<close>

fun run :: "(env \<times> nat option \<times> request) list \<Rightarrow> store \<Rightarrow> store" where
  "run [] s = s"
| "run (c # cs) s = run cs (snd (handle (fst c) (fst (snd c)) (snd (snd c)) s))"

subsection \<open>Sample data\<close>

definition sample_env :: env where
  "sample_env = \<lparr>JWT_SECRET = None, now = 1000, bcrypt_hash = (\<lambda>p. ''$2a$10$'' @ p),
     bcrypt_compare = (\<lambda>p h. h = ''$2a$10$'' @ p), keeps_appointments = True\<rparr>"

definition sample_booking :: bookAppointment_body where
  "sample_booking = \<lparr>b_doctorId = Some 7, b_patientId = Some 3, b_patientName = Some ''Bob'',
     b_patientEmail = Some ''b@x.com'', b_timeSlot = Some ''Mon-09:00''\<rparr>"

definition sample_doctor_body :: registerDoctor_body where
  "sample_doctor_body = \<lparr>rd_name = Some ''Dr. A'', rd_email = Some ''a@x.com'',
     rd_password = Some ''pw'', rd_specialty = Some ''Cardio'', rd_experience = Some 5,
     rd_location = Some ''NYC'',
     rd_availability = Some [\<lparr>in_id = None, in_day = Some ''Mon'',
                              in_startTime = Some ''09:00'', in_endTime = Some ''10:00'',
                              in_location = None, in_extra = []\<rparr>]\<rparr>"

definition sample_patient_body :: registerPatient_body where
  "sample_patient_body = \<lparr>rp_name = Some ''Bob'', rp_email = Some ''b@x.com'',
     rp_password = Some ''pw'', rp_age = Some 30, rp_gender = Some ''M'',
     rp_phone = Some ''555'', rp_address = Some ''1 Main St''\<rparr>"

text \<open>The store after a doctor and two patients registered and each patient booked a slot:
  see \<open>sample_store_reachable\<close>.\<close>

definition sample_store :: store where
  "sample_store =
     \<lparr>doctors = [\<lparr>d_id = 0, d_name = ''Dr. A'', d_email = ''a@x.com'',
                   d_password = ''$2a$10$pw'', specialty = ''Cardio'', experience = 5,
                   d_location = ''NYC'',
                   d_availability = [\<lparr>av_id = 1, day = ''Mon'', startTime = ''09:00'',
                                      endTime = ''10:00'', location = ''Office''\<rparr>]\<rparr>],
      patients = [\<lparr>p_id = 2, p_name = ''Bob'', p_email = ''b@x.com'',
                    p_password = ''$2a$10$pw'', age = 30, gender = ''M'', phone = ''555'',
                    address = ''1 Main St'', p_appointments = [4]\<rparr>,
                  \<lparr>p_id = 3, p_name = ''Carol'', p_email = ''c@x.com'',
                    p_password = ''$2a$10$pw2'', age = 41, gender = ''F'', phone = ''556'',
                    address = ''2 Main St'', p_appointments = [5]\<rparr>],
      appointments = [\<lparr>a_id = 4, patientName = ''Bob'', patientEmail = ''b@x.com'',
                        doctorId = 0, timeSlot = ''Mon-09:00'', a_status = ''Booked''\<rparr>,
                      \<lparr>a_id = 5, patientName = ''Carol'', patientEmail = ''c@x.com'',
                        doctorId = 0, timeSlot = ''Tue-10:00'', a_status = ''Booked''\<rparr>],
      next_id = 6\<rparr>"

definition sample_history :: "(env \<times> nat option \<times> request) list" where
  "sample_history =
     [(sample_env, None, RegisterDoctor sample_doctor_body),
      (sample_env, None, RegisterPatient sample_patient_body),
      (sample_env, None, RegisterPatient
         \<lparr>rp_name = Some ''Carol'', rp_email = Some ''c@x.com'', rp_password = Some ''pw2'',
          rp_age = Some 41, rp_gender = Some ''F'', rp_phone = Some ''556'',
          rp_address = Some ''2 Main St''\<rparr>),
      (sample_env, None,
       BookAppointment (sample_booking\<lparr>b_doctorId := Some 0, b_patientId := Some 2\<rparr>)),
      (sample_env, None,
       BookAppointment \<lparr>b_doctorId = Some 0, b_patientId = Some 3, b_patientName = Some ''Carol'',
                        b_patientEmail = Some ''c@x.com'', b_timeSlot = Some ''Tue-10:00''\<rparr>)]"

definition sample_login :: login_body where
  "sample_login = \<lparr>l_email = Some ''b@x.com'', l_password = Some ''pw''\<rparr>"

definition sample_token :: jwt where
  "sample_token = \<lparr>claims = DoctorId 0, iat = 900, exp = 4500, signed_with = ''mysecret''\<rparr>"

text \<open>Three entries: one with no location, one that carries an \<^verbatim>\<open>_id\<close>, one with a key the
  schema does not declare.\<close>

definition sample_availability :: setAvailability_body where
  "sample_availability =
     \<lparr>sa_doctorId = Some 0,
      sa_availability =
        Some [\<lparr>in_id = None, in_day = Some ''Tue'', in_startTime = Some ''14:00'',
               in_endTime = Some ''15:00'', in_location = None, in_extra = []\<rparr>,
              \<lparr>in_id = Some 1, in_day = Some ''Wed'', in_startTime = Some ''08:00'',
               in_endTime = Some ''09:00'', in_location = Some ''Clinic'', in_extra = []\<rparr>,
              \<lparr>in_id = None, in_day = Some ''Fri'', in_startTime = Some ''10:00'',
               in_endTime = Some ''11:00'', in_location = Some ''Annex'',
               in_extra = [(''room'', JNum 4)]\<rparr>]\<rparr>"

text \<open>Carol cancels her appointment, the second of the two stored.\<close>

definition sample_cancel :: cancelAppointment_body where
  "sample_cancel = \<lparr>c_appointmentId = Some 5, c_patientId = Some 3,
     c_patientEmail = Some ''c@x.com''\<rparr>"

section \<open>Properties\<close>

subsection \<open>Auxiliary facts\<close>

lemma status_message [simp]: "status (message n m) = n"
  by (simp add: message_def)

lemma status_booked [simp]: "status (booked a) = 201"
  by (simp add: booked_def)

lemma bookAppointment_created:
  assumes ok: "status (fst (bookAppointment e f b s)) = 201"
  shows "truthy_ref (b_doctorId b) \<and> truthy_ref (b_patientId b) \<and> truthy_str (b_patientName b) \<and>
         truthy_str (b_patientEmail b) \<and> truthy_str (b_timeSlot b)"
    and "Appointment_findOne (the (b_doctorId b)) (the (b_timeSlot b)) (appointments s) = None"
    and "appointments (snd (bookAppointment e f b s)) =
           appointments s @ [new_Appointment b (next_id s)]"
proof -
  let ?bad = "\<not> truthy_ref (b_doctorId b) \<or> \<not> truthy_ref (b_patientId b) \<or>
         \<not> truthy_str (b_patientName b) \<or> \<not> truthy_str (b_patientEmail b) \<or>
         \<not> truthy_str (b_timeSlot b)"
  have v: "\<not> ?bad"
  proof
    assume ?bad
    then have "bookAppointment e f b s = (message 400 ''All fields are required.'', s)"
      unfolding bookAppointment_def by (rule if_P)
    with ok show False by simp
  qed
  then show "truthy_ref (b_doctorId b) \<and> truthy_ref (b_patientId b) \<and> truthy_str (b_patientName b) \<and>
         truthy_str (b_patientEmail b) \<and> truthy_str (b_timeSlot b)" by blast
  have f1: "f \<noteq> Some 1"
  proof
    assume "f = Some 1"
    with v have "bookAppointment e f b s = (message 500 ''Internal server error'', s)"
      unfolding bookAppointment_def by simp
    with ok show False by simp
  qed
  show none: "Appointment_findOne (the (b_doctorId b)) (the (b_timeSlot b)) (appointments s) = None"
  proof (rule ccontr)
    assume "Appointment_findOne (the (b_doctorId b)) (the (b_timeSlot b)) (appointments s) \<noteq> None"
    then obtain a where
      "Appointment_findOne (the (b_doctorId b)) (the (b_timeSlot b)) (appointments s) = Some a"
      by blast
    with v f1 have "bookAppointment e f b s = (message 400 ''Time slot already booked!'', s)"
      unfolding bookAppointment_def by simp
    with ok show False by simp
  qed
  have f23: "f \<noteq> Some 2 \<and> f \<noteq> Some 3"
  proof (rule ccontr)
    assume "\<not> (f \<noteq> Some 2 \<and> f \<noteq> Some 3)"
    with v f1 none have "status (fst (bookAppointment e f b s)) = 500"
      unfolding bookAppointment_def by (auto simp: Let_def)
    with ok show False by simp
  qed
  with v f1 none show "appointments (snd (bookAppointment e f b s)) =
           appointments s @ [new_Appointment b (next_id s)]"
    unfolding bookAppointment_def by (simp add: Let_def)
qed

lemma sample_store_reachable: "run sample_history init_store = sample_store"
  by (simp add: sample_history_def sample_store_def init_store_def sample_env_def
      sample_doctor_body_def sample_patient_body_def sample_booking_def
      registerDoctor_def registerPatient_def bookAppointment_def
      truthy_str_def truthy_num_def truthy_ref_def Doctor_findOne_def Patient_findOne_def
      Appointment_findOne_def cast_entry_def new_Appointment_def Patient_push_def Let_def)


lemma find_hit: "\<exists>x \<in> set xs. P x \<Longrightarrow> \<exists>y. List.find P xs = Some y"
  by (cases "List.find P xs") (auto simp: find_None_iff)

lemma cast_availability_entries:
  "cast_availability n xs = Some r \<Longrightarrow>
   list_all2 (\<lambda>x a. truthy_str (in_day x) \<and> truthy_str (in_startTime x) \<and>
                      truthy_str (in_endTime x) \<and> day a = the (in_day x) \<and>
                      startTime a = the (in_startTime x) \<and> endTime a = the (in_endTime x) \<and>
                      location a = (case in_location x of None \<Rightarrow> ''Office'' | Some l \<Rightarrow> l) \<and>
                      (\<forall>k. in_id x = Some k \<longrightarrow> av_id a = k)) xs (fst r)"
proof (induction xs arbitrary: n r)
  case Nil
  then show ?case by auto
next
  case (Cons x xs)
  let ?n = "case in_id x of None \<Rightarrow> Suc n | Some i \<Rightarrow> n"
  let ?i = "case in_id x of None \<Rightarrow> n | Some i \<Rightarrow> i"
  from Cons.prems have valid:
    "truthy_str (in_day x) \<and> truthy_str (in_startTime x) \<and> truthy_str (in_endTime x)"
    by (simp split: if_splits)
  with Cons.prems obtain r' where tl: "cast_availability ?n xs = Some r'"
    and r: "r = (cast_entry ?i x # fst r', snd r')"
    by (auto split: option.splits)
  have "\<forall>k. in_id x = Some k \<longrightarrow> av_id (cast_entry ?i x) = k"
    by (simp add: cast_entry_def)
  with valid Cons.IH [OF tl] show ?case
    unfolding r by (simp add: cast_entry_def)
qed

lemma list_all2_map_eq:
  "list_all2 P xs ys \<Longrightarrow> (\<And>x y. P x y \<Longrightarrow> g y = h x) \<Longrightarrow> map g ys = map h xs"
  by (induction rule: list_all2_induct) auto

lemma find_updateOne:
  "(\<And>x. P x \<Longrightarrow> P (u x)) \<Longrightarrow> List.find P (updateOne P u xs) = map_option u (List.find P xs)"
  by (induction xs) auto

lemma find_Some_holds: "List.find P xs = Some x \<Longrightarrow> P x"
  by (induction xs) (auto split: if_splits)

lemma authenticateToken_denied:
  "authenticateToken e token = Some r \<Longrightarrow> status r = 401 \<or> status r = 403"
  by (auto simp: authenticateToken_def split: option.splits)

lemma map_of_undeclared:
  "k \<in> S \<Longrightarrow> map_of (filter (\<lambda>kv. fst kv \<notin> S) kvs) k = None"
  by (induction kvs) auto

lemma field_availability_json:
  "field ''_id'' (availability_json a) = Some (JId (av_id a))"
  "field ''day'' (availability_json a) = Some (JStr (day a))"
  "field ''startTime'' (availability_json a) = Some (JStr (startTime a))"
  "field ''endTime'' (availability_json a) = Some (JStr (endTime a))"
  "field ''location'' (availability_json a) = Some (JStr (location a))"
  by (simp_all add: field_def availability_json_def)

lemma keys_availability_json:
  "field k (availability_json a) \<noteq> None \<Longrightarrow>
   k \<in> set [''_id'', ''day'', ''startTime'', ''endTime'', ''location'']"
  by (auto simp: field_def availability_json_def split: if_splits)

lemma declared_keys_mem:
  "''_id'' \<in> set declared_keys" "''day'' \<in> set declared_keys"
  "''startTime'' \<in> set declared_keys" "''endTime'' \<in> set declared_keys"
  "''location'' \<in> set declared_keys"
  by (simp_all add: declared_keys_def)

lemma field_availability_in_json:
  "field ''_id'' (availability_in_json x) = map_option JId (in_id x)"
  "field ''day'' (availability_in_json x) = map_option JStr (in_day x)"
  "field ''startTime'' (availability_in_json x) = map_option JStr (in_startTime x)"
  "field ''endTime'' (availability_in_json x) = map_option JStr (in_endTime x)"
  "field ''location'' (availability_in_json x) = map_option JStr (in_location x)"
  by (simp_all add: field_def availability_in_json_def opt_field_def map_of_append
        map_of_undeclared declared_keys_mem map_add_def split: option.splits)

lemma setAvailability_accepted:
  assumes ok: "status (fst (setAvailability e f token b s)) = 200"
  shows "\<exists>doctor cast.
           Doctor_findById (the (sa_doctorId b)) (doctors s) = Some doctor \<and>
           sa_availability b \<noteq> None \<and>
           cast_availability (next_id s) (the (sa_availability b)) = Some cast \<and>
           doctors (snd (setAvailability e f token b s)) =
             updateOne (\<lambda>d. d_id d = d_id doctor) (\<lambda>d. d\<lparr>d_availability := fst cast\<rparr>)
               (doctors s)"
  using ok unfolding setAvailability_def
  by (auto split: option.splits if_splits dest: authenticateToken_denied)

lemma sample_token_accepted: "authenticateToken sample_env (Some sample_token) = None"
  by (simp add: authenticateToken_def jwt_verify_def secret_def sample_env_def sample_token_def
      truthy_str_def)

lemma sample_availability_accepted:
  "status (fst (setAvailability sample_env None (Some sample_token) sample_availability
                  sample_store)) = 200"
  by (simp add: setAvailability_def sample_token_accepted sample_availability_def
      sample_store_def truthy_ref_def Doctor_findById_def truthy_str_def)

lemmas cancel_defs = cancelAppointment_def startTransaction_def abortTransaction_def
  commitTransaction_def Let_def

lemma length_updateOne [simp]: "length (updateOne P u xs) = length xs"
  by (induction xs) auto

lemma updateOne_nth_other:
  "i < length xs \<Longrightarrow> \<not> P (xs ! i) \<Longrightarrow> updateOne P u xs ! i = xs ! i"
proof (induction xs arbitrary: i)
  case Nil
  then show ?case by simp
next
  case (Cons x xs)
  then show ?case by (cases i) auto
qed

lemma updateOne_no_match: "\<forall>x \<in> set xs. \<not> P x \<Longrightarrow> updateOne P u xs = xs"
  by (induction xs) auto

lemma length_deleteOne: "List.find P xs = Some x \<Longrightarrow> Suc (length (deleteOne P xs)) = length xs"
  by (induction xs) (auto split: if_splits)

lemma deleteOne_split:
  "List.find P xs = Some x \<Longrightarrow>
   \<exists>pre post. xs = pre @ x # post \<and> (\<forall>y \<in> set pre. \<not> P y) \<and> deleteOne P xs = pre @ post"
proof (induction xs)
  case Nil
  then show ?case by simp
next
  case (Cons y ys)
  show ?case
  proof (cases "P y")
    case True
    with Cons.prems have "y # ys = [] @ x # ys \<and> (\<forall>z \<in> set []. \<not> P z) \<and>
        deleteOne P (y # ys) = [] @ ys" by simp
    then show ?thesis by blast
  next
    case False
    with Cons.prems have "List.find P ys = Some x" by simp
    from Cons.IH [OF this] obtain pre post where
      "ys = pre @ x # post" "\<forall>z \<in> set pre. \<not> P z" "deleteOne P ys = pre @ post" by blast
    with False have "y # ys = (y # pre) @ x # post \<and> (\<forall>z \<in> set (y # pre). \<not> P z) \<and>
        deleteOne P (y # ys) = (y # pre) @ post" by simp
    then show ?thesis by blast
  qed
qed

lemma updateOne_nth_first:
  "i < length xs \<Longrightarrow> P (xs ! i) \<Longrightarrow> \<forall>j < i. \<not> P (xs ! j) \<Longrightarrow>
   updateOne P u xs ! i = u (xs ! i)"
proof (induction xs arbitrary: i)
  case Nil
  then show ?case by simp
next
  case (Cons x xs)
  show ?case
  proof (cases i)
    case 0
    with Cons.prems show ?thesis by simp
  next
    case (Suc k)
    with Cons.prems have "\<not> P x" by auto
    moreover from Suc Cons.prems have "k < length xs" "P (xs ! k)" "\<forall>j < k. \<not> P (xs ! j)"
      by auto
    ultimately show ?thesis using Suc Cons.IH [of k] by simp
  qed
qed

lemma updateOne_nth_later:
  "i < length xs \<Longrightarrow> j < i \<Longrightarrow> P (xs ! j) \<Longrightarrow> updateOne P u xs ! i = xs ! i"
proof (induction xs arbitrary: i j)
  case Nil
  then show ?case by simp
next
  case (Cons x xs)
  from Cons.prems obtain k where i: "i = Suc k" by (cases i) auto
  show ?case
  proof (cases "P x")
    case True
    with i show ?thesis by simp
  next
    case False
    with Cons.prems obtain l where j: "j = Suc l" by (cases j) auto
    with i Cons.prems have "k < length xs" "l < k" "P (xs ! l)" by auto
    from Cons.IH [OF this] False i show ?thesis by simp
  qed
qed

lemma Patient_pull_frame:
  "length (Patient_pull k pid a ps) = length ps \<and>
   (\<forall>i < length ps. Some (p_id (ps ! i)) \<noteq> pid \<longrightarrow> Patient_pull k pid a ps ! i = ps ! i) \<and>
   (pid = None \<longrightarrow> Patient_pull k pid a ps = ps)"
  by (auto simp: Patient_pull_def updateOne_nth_other updateOne_no_match)

lemma cancel_not_ok:
  "status (fst (cancelAppointment e f token b s)) \<noteq> 200 \<Longrightarrow>
   snd (cancelAppointment e f token b s) = s"
  by (simp add: cancel_defs split: option.splits if_splits)

lemma cancel_fault:
  "f = Some 1 \<or> f = Some 2 \<or> f = Some 3 \<Longrightarrow>
   status (fst (cancelAppointment e f token b s)) \<noteq> 200"
  by (auto simp: cancel_defs split: option.splits dest: authenticateToken_denied)

lemma cancel_ok:
  "status (fst (cancelAppointment e f token b s)) = 200 \<Longrightarrow>
   snd (cancelAppointment e f token b s) =
     s\<lparr>appointments := Appointment_findByIdAndDelete (the (c_appointmentId b)) (appointments s),
       patients := Patient_pull (keeps_appointments e) (c_patientId b) (the (c_appointmentId b))
                     (patients s)\<rparr>"
  by (auto simp: cancel_defs split: option.splits if_splits dest: authenticateToken_denied)

lemma set_deleteOne: "set (deleteOne P xs) \<subseteq> set xs"
  by (induction xs) auto

lemma registerDoctor_appointments:
  "appointments (snd (registerDoctor e f b s)) = appointments s"
  by (simp add: registerDoctor_def Let_def split: option.split)

lemma registerPatient_appointments:
  "appointments (snd (registerPatient e f b s)) = appointments s"
  by (simp add: registerPatient_def Let_def split: option.split)

lemma loginPatient_store: "snd (loginPatient e f b s) = s"
  by (simp add: loginPatient_def split: option.split)

lemma loginDoctor_store: "snd (loginDoctor e f b s) = s"
  by (simp add: loginDoctor_def split: option.split)

lemma getAvailability_store: "snd (getAvailability e f token i s) = s"
  by (simp add: getAvailability_def split: option.split)

lemma setAvailability_appointments:
  "appointments (snd (setAvailability e f token b s)) = appointments s"
  by (simp add: setAvailability_def split: option.split)

lemma searchDoctors_store: "snd (searchDoctors f s) = s"
  by (simp add: searchDoctors_def)

lemma bookAppointment_appointments:
  "appointments (snd (bookAppointment e f b s)) = appointments s \<or>
   appointments (snd (bookAppointment e f b s)) = appointments s @ [new_Appointment b (next_id s)]"
  by (simp add: bookAppointment_def Let_def split: option.split)

lemma cancelAppointment_appointments:
  "set (appointments (snd (cancelAppointment e f token b s))) \<subseteq> set (appointments s)"
  using set_deleteOne [of "\<lambda>a. a_id a = the (c_appointmentId b)" "appointments s"]
  by (simp add: cancel_defs Appointment_findByIdAndDelete_def split: option.split)

lemma handle_keeps_booked:
  assumes "\<forall>a \<in> set (appointments s). a_status a = ''Booked''"
  shows "\<forall>a \<in> set (appointments (snd (handle e f r s))). a_status a = ''Booked''"
proof (cases r)
  case (BookAppointment b)
  have "a_status (new_Appointment b (next_id s)) = ''Booked''"
    by (simp add: new_Appointment_def)
  with assms bookAppointment_appointments [of e f b s] BookAppointment show ?thesis
    by auto
next
  case (CancelAppointment token b)
  with assms cancelAppointment_appointments [of e f token b s] show ?thesis
    by auto
qed (use assms in \<open>simp_all add: registerDoctor_appointments registerPatient_appointments
      loginPatient_store loginDoctor_store getAvailability_store setAvailability_appointments
      searchDoctors_store\<close>)

lemma run_keeps_booked:
  "\<forall>a \<in> set (appointments s). a_status a = ''Booked'' \<Longrightarrow>
   \<forall>a \<in> set (appointments (run cs s)). a_status a = ''Booked''"
proof (induction cs arbitrary: s)
  case Nil
  then show ?case by simp
next
  case (Cons c cs)
  from handle_keeps_booked [OF Cons.prems]
  have "\<forall>a \<in> set (appointments (snd (handle (fst c) (fst (snd c)) (snd (snd c)) s))).
          a_status a = ''Booked''" .
  from Cons.IH [OF this] show ?case by simp
qed

lemma no_password_message [simp]: "\<not> has_field ''password'' (body (message n m))"
  by (simp add: message_def)

lemma no_password_availability [simp]:
  "\<not> has_field_list ''password'' (map availability_json xs)"
  by (induction xs) (simp_all add: availability_json_def)

lemma no_password_select: "\<not> has_field_obj ''password'' (select_minus ''password'' (doctor_doc d))"
  by (simp add: select_minus_def doctor_doc_def)

lemma no_password_search [simp]:
  "\<not> has_field_list ''password'' (map (\<lambda>d. JObj (select_minus ''password'' (doctor_doc d))) ds)"
  by (induction ds) (simp_all add: no_password_select)

lemma no_password_denied:
  "authenticateToken e token = Some r \<Longrightarrow> \<not> has_field ''password'' (body r)"
  by (auto simp: authenticateToken_def split: option.splits)

lemma registerDoctor_no_password: "\<not> has_field ''password'' (body (fst (registerDoctor e f b s)))"
  by (simp add: registerDoctor_def Let_def split: option.split)

lemma registerPatient_no_password: "\<not> has_field ''password'' (body (fst (registerPatient e f b s)))"
  by (simp add: registerPatient_def Let_def split: option.split)

lemma loginPatient_no_password: "\<not> has_field ''password'' (body (fst (loginPatient e f b s)))"
  by (simp add: loginPatient_def split: option.split)

lemma loginDoctor_no_password: "\<not> has_field ''password'' (body (fst (loginDoctor e f b s)))"
  by (simp add: loginDoctor_def split: option.split)

lemma getAvailability_no_password:
  "\<not> has_field ''password'' (body (fst (getAvailability e f token i s)))"
  by (simp add: getAvailability_def no_password_denied split: option.split)

lemma setAvailability_no_password:
  "\<not> has_field ''password'' (body (fst (setAvailability e f token b s)))"
  by (simp add: setAvailability_def no_password_denied split: option.split)

lemma bookAppointment_no_password:
  "\<not> has_field ''password'' (body (fst (bookAppointment e f b s)))"
  by (simp add: bookAppointment_def booked_def appointment_doc_def Let_def split: option.split)

lemma cancelAppointment_no_password:
  "\<not> has_field ''password'' (body (fst (cancelAppointment e f token b s)))"
  by (simp add: cancel_defs no_password_denied split: option.split)

lemma searchDoctors_no_password: "\<not> has_field ''password'' (body (fst (searchDoctors f s)))"
  by (simp add: searchDoctors_def)

subsection \<open>Booking\<close>

text \<open>
  C1. A booking request whose five required fields pass the handler's presence check, for
  a (doctorId, timeSlot) pair some stored appointment already has, is answered
  400 "Time slot already booked!" and leaves the database as it was, whenever the lookup
  itself does not reject. In particular, after a booking answered 201, the same booking
  again is answered with that conflict and changes nothing.
\<close>

theorem booked_slot_is_refused:
  assumes "f \<noteq> Some 1"
  shows "(truthy_ref (b_doctorId b) \<and> truthy_ref (b_patientId b) \<and> truthy_str (b_patientName b) \<and>
          truthy_str (b_patientEmail b) \<and> truthy_str (b_timeSlot b) \<and>
          (\<exists>a \<in> set (appointments s).
              doctorId a = the (b_doctorId b) \<and> timeSlot a = the (b_timeSlot b))
          \<longrightarrow> bookAppointment e f b s = (message 400 ''Time slot already booked!'', s)) \<and>
         (status (fst (bookAppointment e' f' b s)) = 201
          \<longrightarrow> bookAppointment e f b (snd (bookAppointment e' f' b s)) =
                (message 400 ''Time slot already booked!'', snd (bookAppointment e' f' b s)))"
proof -
  have refuse: "bookAppointment e f b t = (message 400 ''Time slot already booked!'', t)"
    if v: "truthy_ref (b_doctorId b) \<and> truthy_ref (b_patientId b) \<and> truthy_str (b_patientName b) \<and>
          truthy_str (b_patientEmail b) \<and> truthy_str (b_timeSlot b)"
      and ex: "\<exists>a \<in> set (appointments t).
              doctorId a = the (b_doctorId b) \<and> timeSlot a = the (b_timeSlot b)" for t
  proof -
    from ex obtain a where
      "Appointment_findOne (the (b_doctorId b)) (the (b_timeSlot b)) (appointments t) = Some a"
      by (cases "Appointment_findOne (the (b_doctorId b)) (the (b_timeSlot b)) (appointments t)")
         (auto simp: Appointment_findOne_def find_None_iff)
    with v assms show ?thesis
      unfolding bookAppointment_def by simp
  qed
  show ?thesis
  proof (intro conjI impI)
    assume "truthy_ref (b_doctorId b) \<and> truthy_ref (b_patientId b) \<and> truthy_str (b_patientName b) \<and>
          truthy_str (b_patientEmail b) \<and> truthy_str (b_timeSlot b) \<and>
          (\<exists>a \<in> set (appointments s).
              doctorId a = the (b_doctorId b) \<and> timeSlot a = the (b_timeSlot b))"
    then show "bookAppointment e f b s = (message 400 ''Time slot already booked!'', s)"
      by (intro refuse) blast+
  next
    assume ok: "status (fst (bookAppointment e' f' b s)) = 201"
    have "\<exists>a \<in> set (appointments (snd (bookAppointment e' f' b s))).
              doctorId a = the (b_doctorId b) \<and> timeSlot a = the (b_timeSlot b)"
      by (simp add: bookAppointment_created(3)[OF ok] new_Appointment_def)
    with bookAppointment_created(1)[OF ok]
    show "bookAppointment e f b (snd (bookAppointment e' f' b s)) =
                (message 400 ''Time slot already booked!'', snd (bookAppointment e' f' b s))"
      by (intro refuse)
  qed
qed

theorem booked_slot_is_refused_witness:
  "status (fst (bookAppointment sample_env None sample_booking init_store)) = 201 \<and>
   bookAppointment sample_env None sample_booking (snd (bookAppointment sample_env None sample_booking init_store)) =
     (message 400 ''Time slot already booked!'', snd (bookAppointment sample_env None sample_booking init_store)) \<and>
   length (appointments (snd (bookAppointment sample_env None sample_booking init_store))) = 1"
proof -
  have a: "status (fst (bookAppointment sample_env None sample_booking init_store)) = 201"
    by (simp add: bookAppointment_def sample_env_def sample_booking_def init_store_def truthy_ref_def truthy_str_def
          Appointment_findOne_def Let_def)
  have b: "length (appointments (snd (bookAppointment sample_env None sample_booking init_store))) = 1"
    by (simp add: bookAppointment_def sample_env_def sample_booking_def init_store_def truthy_ref_def truthy_str_def
          Appointment_findOne_def Let_def)
  have c: "(None :: nat option) \<noteq> Some 1" by simp
  from booked_slot_is_refused [OF c, of sample_booking init_store sample_env sample_env None] a b show ?thesis by blast
qed


subsection \<open>Registration\<close>

text \<open>
  C8. A registration request, of a doctor or of a patient, in which a required field is
  absent or falsy (the empty string, the number 0) is answered 400 "All fields are
  required." and leaves the database as it was.
\<close>

theorem registration_rejects_falsy_field:
  "((\<not> truthy_str (rd_name d) \<or> \<not> truthy_str (rd_email d) \<or> \<not> truthy_str (rd_password d) \<or>
     \<not> truthy_str (rd_specialty d) \<or> \<not> truthy_num (rd_experience d) \<or>
     \<not> truthy_str (rd_location d) \<or> \<not> truthy_ref (rd_availability d))
    \<longrightarrow> registerDoctor e f d s = (message 400 ''All fields are required.'', s)) \<and>
   ((\<not> truthy_str (rp_name p) \<or> \<not> truthy_str (rp_email p) \<or> \<not> truthy_str (rp_password p) \<or>
     \<not> truthy_num (rp_age p) \<or> \<not> truthy_str (rp_gender p) \<or> \<not> truthy_str (rp_phone p) \<or>
     \<not> truthy_str (rp_address p))
    \<longrightarrow> registerPatient e f p s = (message 400 ''All fields are required.'', s))"
  by (simp add: registerDoctor_def registerPatient_def)



theorem registration_rejects_falsy_field_witness:
  "\<not> truthy_num (rd_experience (sample_doctor_body\<lparr>rd_experience := Some 0\<rparr>)) \<and>
   registerDoctor sample_env None (sample_doctor_body\<lparr>rd_experience := Some 0\<rparr>) init_store =
     (message 400 ''All fields are required.'', init_store) \<and>
   \<not> truthy_num (rp_age (sample_patient_body\<lparr>rp_age := Some 0\<rparr>)) \<and>
   registerPatient sample_env None (sample_patient_body\<lparr>rp_age := Some 0\<rparr>) init_store =
     (message 400 ''All fields are required.'', init_store)"
  using registration_rejects_falsy_field
    [where d = "sample_doctor_body\<lparr>rd_experience := Some 0\<rparr>"
       and p = "sample_patient_body\<lparr>rp_age := Some 0\<rparr>"
       and e = sample_env and f = None and s = init_store]
  by (simp add: truthy_num_def)

text \<open>
  C7 (as amended). A registration request, of a doctor or of a patient, that passes the
  required-field check and whose email is the email of a stored record of the same kind
  is answered 400 with the "already exists" message and leaves the database as it was,
  whenever the lookup itself does not reject.
\<close>

theorem duplicate_email_is_refused:
  assumes "f \<noteq> Some 1"
  shows "(truthy_str (rd_name d) \<and> truthy_str (rd_email d) \<and> truthy_str (rd_password d) \<and>
          truthy_str (rd_specialty d) \<and> truthy_num (rd_experience d) \<and>
          truthy_str (rd_location d) \<and> truthy_ref (rd_availability d) \<and>
          (\<exists>x \<in> set (doctors s). d_email x = the (rd_email d))
          \<longrightarrow> registerDoctor e f d s =
                (message 400 ''Doctor with this email already exists.'', s)) \<and>
         (truthy_str (rp_name p) \<and> truthy_str (rp_email p) \<and> truthy_str (rp_password p) \<and>
          truthy_num (rp_age p) \<and> truthy_str (rp_gender p) \<and> truthy_str (rp_phone p) \<and>
          truthy_str (rp_address p) \<and>
          (\<exists>x \<in> set (patients s). p_email x = the (rp_email p))
          \<longrightarrow> registerPatient e f p s =
                (message 400 ''Patient with this email already exists.'', s))"
proof (intro conjI impI)
  assume h: "truthy_str (rd_name d) \<and> truthy_str (rd_email d) \<and> truthy_str (rd_password d) \<and>
          truthy_str (rd_specialty d) \<and> truthy_num (rd_experience d) \<and>
          truthy_str (rd_location d) \<and> truthy_ref (rd_availability d) \<and>
          (\<exists>x \<in> set (doctors s). d_email x = the (rd_email d))"
  then have "\<exists>x \<in> set (doctors s). d_email x = the (rd_email d)" by blast
  then obtain y where "Doctor_findOne (the (rd_email d)) (doctors s) = Some y"
    unfolding Doctor_findOne_def
    using find_hit [where P = "\<lambda>x. d_email x = the (rd_email d)" and xs = "doctors s"] by auto
  with h assms show "registerDoctor e f d s =
                (message 400 ''Doctor with this email already exists.'', s)"
    unfolding registerDoctor_def by simp
next
  assume h: "truthy_str (rp_name p) \<and> truthy_str (rp_email p) \<and> truthy_str (rp_password p) \<and>
          truthy_num (rp_age p) \<and> truthy_str (rp_gender p) \<and> truthy_str (rp_phone p) \<and>
          truthy_str (rp_address p) \<and>
          (\<exists>x \<in> set (patients s). p_email x = the (rp_email p))"
  then have "\<exists>x \<in> set (patients s). p_email x = the (rp_email p)" by blast
  then obtain y where "Patient_findOne (the (rp_email p)) (patients s) = Some y"
    unfolding Patient_findOne_def
    using find_hit [where P = "\<lambda>x. p_email x = the (rp_email p)" and xs = "patients s"] by auto
  with h assms show "registerPatient e f p s =
                (message 400 ''Patient with this email already exists.'', s)"
    unfolding registerPatient_def by simp
qed

theorem duplicate_email_is_refused_witness:
  "(\<exists>x \<in> set (doctors sample_store). d_email x = the (rd_email sample_doctor_body)) \<and>
   registerDoctor sample_env None sample_doctor_body sample_store =
     (message 400 ''Doctor with this email already exists.'', sample_store) \<and>
   (\<exists>x \<in> set (patients sample_store). p_email x = the (rp_email sample_patient_body)) \<and>
   registerPatient sample_env None sample_patient_body sample_store =
     (message 400 ''Patient with this email already exists.'', sample_store)"
proof -
  have n: "(None :: nat option) \<noteq> Some 1" by simp
  have a: "\<exists>x \<in> set (doctors sample_store). d_email x = the (rd_email sample_doctor_body)"
    by (simp add: sample_store_def sample_doctor_body_def)
  have b: "\<exists>x \<in> set (patients sample_store). p_email x = the (rp_email sample_patient_body)"
    by (simp add: sample_store_def sample_patient_body_def)
  have c: "truthy_str (rd_name sample_doctor_body) \<and> truthy_str (rd_email sample_doctor_body) \<and>
           truthy_str (rd_password sample_doctor_body) \<and> truthy_str (rd_specialty sample_doctor_body) \<and>
           truthy_num (rd_experience sample_doctor_body) \<and> truthy_str (rd_location sample_doctor_body) \<and>
           truthy_ref (rd_availability sample_doctor_body)"
    by (simp add: sample_doctor_body_def truthy_str_def truthy_num_def truthy_ref_def)
  have d: "truthy_str (rp_name sample_patient_body) \<and> truthy_str (rp_email sample_patient_body) \<and>
           truthy_str (rp_password sample_patient_body) \<and> truthy_num (rp_age sample_patient_body) \<and>
           truthy_str (rp_gender sample_patient_body) \<and> truthy_str (rp_phone sample_patient_body) \<and>
           truthy_str (rp_address sample_patient_body)"
    by (simp add: sample_patient_body_def truthy_str_def truthy_num_def)
  from duplicate_email_is_refused [OF n, of sample_doctor_body sample_store sample_env sample_patient_body]
    a b c d show ?thesis by blast
qed

text \<open>
  C7 as stated fails: a request with the email of a stored doctor and no name is answered
  with the validation error, not the conflict.
\<close>

theorem duplicate_email_counterexample:
  "(\<exists>x \<in> set (doctors sample_store).
       Some (d_email x) = rd_email (sample_doctor_body\<lparr>rd_name := None\<rparr>)) \<and>
   fst (registerDoctor sample_env None (sample_doctor_body\<lparr>rd_name := None\<rparr>) sample_store) =
     message 400 ''All fields are required.'' \<and>
   fst (registerDoctor sample_env None (sample_doctor_body\<lparr>rd_name := None\<rparr>) sample_store) \<noteq>
     message 400 ''Doctor with this email already exists.''"
  by (simp add: registerDoctor_def sample_store_def sample_doctor_body_def truthy_str_def
      message_def)

subsection \<open>Login\<close>

text \<open>
  C5 (as amended). A login request that carries an email and a password (for a patient:
  both non-empty, which the handler checks first), when neither awaited call rejects:
  with no record for the email it is answered 401 "... not found."; with a record whose
  hash \<^verbatim>\<open>bcrypt.compare\<close> does not accept, 401 "Invalid password."; otherwise 200 with a
  token signed with the process secret, issued now and expiring 3600 seconds later, whose
  payload is the record's identifier under the key of its role (\<open>PatientId\<close>,
  \<open>DoctorId\<close>); the token verifies to that payload until it expires.
\<close>

theorem login_outcomes:
  assumes "f \<noteq> Some 1" and "f \<noteq> Some 2"
  shows
  "(truthy_str (l_email b) \<and> truthy_str (l_password b) \<longrightarrow>
      (Patient_findOne (the (l_email b)) (patients s) = None \<longrightarrow>
         loginPatient e f b s = (message 401 ''Patient not found.'', s)) \<and>
      (\<forall>p. Patient_findOne (the (l_email b)) (patients s) = Some p \<longrightarrow>
         (\<not> bcrypt_compare e (the (l_password b)) (p_password p) \<longrightarrow>
            loginPatient e f b s = (message 401 ''Invalid password.'', s)) \<and>
         (bcrypt_compare e (the (l_password b)) (p_password p) \<longrightarrow>
            status (fst (loginPatient e f b s)) = 200 \<and> snd (loginPatient e f b s) = s \<and>
            field ''token'' (body (fst (loginPatient e f b s))) =
              Some (JToken \<lparr>claims = PatientId (p_id p), iat = now e, exp = now e + 3600,
                             signed_with = secret e\<rparr>) \<and>
            jwt_verify \<lparr>claims = PatientId (p_id p), iat = now e, exp = now e + 3600,
                        signed_with = secret e\<rparr> (secret e) t =
              (if t < now e + 3600 then Some (PatientId (p_id p)) else None)))) \<and>
   (l_email b \<noteq> None \<and> l_password b \<noteq> None \<longrightarrow>
      (Doctor_findOne (the (l_email b)) (doctors s) = None \<longrightarrow>
         loginDoctor e f b s = (message 401 ''Doctor not found.'', s)) \<and>
      (\<forall>d. Doctor_findOne (the (l_email b)) (doctors s) = Some d \<longrightarrow>
         (\<not> bcrypt_compare e (the (l_password b)) (d_password d) \<longrightarrow>
            loginDoctor e f b s = (message 401 ''Invalid password.'', s)) \<and>
         (bcrypt_compare e (the (l_password b)) (d_password d) \<longrightarrow>
            status (fst (loginDoctor e f b s)) = 200 \<and> snd (loginDoctor e f b s) = s \<and>
            field ''token'' (body (fst (loginDoctor e f b s))) =
              Some (JToken \<lparr>claims = DoctorId (d_id d), iat = now e, exp = now e + 3600,
                             signed_with = secret e\<rparr>) \<and>
            jwt_verify \<lparr>claims = DoctorId (d_id d), iat = now e, exp = now e + 3600,
                        signed_with = secret e\<rparr> (secret e) t =
              (if t < now e + 3600 then Some (DoctorId (d_id d)) else None))))"
proof (intro conjI impI allI)
  assume "truthy_str (l_email b) \<and> truthy_str (l_password b)"
    and "Patient_findOne (the (l_email b)) (patients s) = None"
  with assms show "loginPatient e f b s = (message 401 ''Patient not found.'', s)"
    by (simp add: loginPatient_def)
next
  fix p
  assume "truthy_str (l_email b) \<and> truthy_str (l_password b)"
    and "Patient_findOne (the (l_email b)) (patients s) = Some p"
    and "\<not> bcrypt_compare e (the (l_password b)) (p_password p)"
  with assms show "loginPatient e f b s = (message 401 ''Invalid password.'', s)"
    by (simp add: loginPatient_def)
next
  fix p
  assume h: "truthy_str (l_email b) \<and> truthy_str (l_password b)"
    "Patient_findOne (the (l_email b)) (patients s) = Some p"
    "bcrypt_compare e (the (l_password b)) (p_password p)"
  with assms show "status (fst (loginPatient e f b s)) = 200"
    by (simp add: loginPatient_def)
  from h assms show "snd (loginPatient e f b s) = s"
    by (simp add: loginPatient_def)
  from h assms show "field ''token'' (body (fst (loginPatient e f b s))) =
              Some (JToken \<lparr>claims = PatientId (p_id p), iat = now e, exp = now e + 3600,
                             signed_with = secret e\<rparr>)"
    by (simp add: loginPatient_def field_def jwt_sign_def)
  show "jwt_verify \<lparr>claims = PatientId (p_id p), iat = now e, exp = now e + 3600,
                        signed_with = secret e\<rparr> (secret e) t =
              (if t < now e + 3600 then Some (PatientId (p_id p)) else None)"
    by (simp add: jwt_verify_def)
next
  assume "l_email b \<noteq> None \<and> l_password b \<noteq> None"
    and "Doctor_findOne (the (l_email b)) (doctors s) = None"
  with assms show "loginDoctor e f b s = (message 401 ''Doctor not found.'', s)"
    by (auto simp: loginDoctor_def)
next
  fix d
  assume "l_email b \<noteq> None \<and> l_password b \<noteq> None"
    and "Doctor_findOne (the (l_email b)) (doctors s) = Some d"
    and "\<not> bcrypt_compare e (the (l_password b)) (d_password d)"
  with assms show "loginDoctor e f b s = (message 401 ''Invalid password.'', s)"
    by (auto simp: loginDoctor_def)
next
  fix d
  assume h: "l_email b \<noteq> None \<and> l_password b \<noteq> None"
    "Doctor_findOne (the (l_email b)) (doctors s) = Some d"
    "bcrypt_compare e (the (l_password b)) (d_password d)"
  with assms show "status (fst (loginDoctor e f b s)) = 200"
    by (auto simp: loginDoctor_def)
  from h assms show "snd (loginDoctor e f b s) = s"
    by (auto simp: loginDoctor_def)
  from h assms show "field ''token'' (body (fst (loginDoctor e f b s))) =
              Some (JToken \<lparr>claims = DoctorId (d_id d), iat = now e, exp = now e + 3600,
                             signed_with = secret e\<rparr>)"
    by (auto simp: loginDoctor_def field_def jwt_sign_def)
  show "jwt_verify \<lparr>claims = DoctorId (d_id d), iat = now e, exp = now e + 3600,
                        signed_with = secret e\<rparr> (secret e) t =
              (if t < now e + 3600 then Some (DoctorId (d_id d)) else None)"
    by (simp add: jwt_verify_def)
qed

theorem login_outcomes_witness:
  "truthy_str (l_email sample_login) \<and> truthy_str (l_password sample_login) \<and>
   Patient_findOne (the (l_email sample_login)) (patients sample_store) =
     Some (hd (patients sample_store)) \<and>
   bcrypt_compare sample_env (the (l_password sample_login))
     (p_password (hd (patients sample_store))) \<and>
   status (fst (loginPatient sample_env None sample_login sample_store)) = 200 \<and>
   field ''token'' (body (fst (loginPatient sample_env None sample_login sample_store))) =
     Some (JToken \<lparr>claims = PatientId 2, iat = 1000, exp = 4600, signed_with = ''mysecret''\<rparr>) \<and>
   Patient_findOne (the (l_email (sample_login\<lparr>l_email := Some ''nobody@x.com''\<rparr>)))
     (patients sample_store) = None \<and>
   loginPatient sample_env None (sample_login\<lparr>l_email := Some ''nobody@x.com''\<rparr>) sample_store =
     (message 401 ''Patient not found.'', sample_store) \<and>
   \<not> bcrypt_compare sample_env (the (l_password (sample_login\<lparr>l_password := Some ''guess''\<rparr>)))
     (p_password (hd (patients sample_store))) \<and>
   loginPatient sample_env None (sample_login\<lparr>l_password := Some ''guess''\<rparr>) sample_store =
     (message 401 ''Invalid password.'', sample_store) \<and>
   Doctor_findOne (the (l_email (sample_login\<lparr>l_email := Some ''a@x.com''\<rparr>)))
     (doctors sample_store) = Some (hd (doctors sample_store)) \<and>
   field ''token'' (body (fst (loginDoctor sample_env None
       (sample_login\<lparr>l_email := Some ''a@x.com''\<rparr>) sample_store))) =
     Some (JToken \<lparr>claims = DoctorId 0, iat = 1000, exp = 4600, signed_with = ''mysecret''\<rparr>)"
proof -
  have n: "(None :: nat option) \<noteq> Some 1" "(None :: nat option) \<noteq> Some 2" by simp_all
  have t: "truthy_str (l_email sample_login) \<and> truthy_str (l_password sample_login)"
    by (simp add: sample_login_def truthy_str_def)
  have p: "Patient_findOne (the (l_email sample_login)) (patients sample_store) =
     Some (hd (patients sample_store))"
    by (simp add: sample_login_def sample_store_def Patient_findOne_def)
  have c: "bcrypt_compare sample_env (the (l_password sample_login))
     (p_password (hd (patients sample_store)))"
    by (simp add: sample_login_def sample_store_def sample_env_def)
  have q: "Patient_findOne (the (l_email (sample_login\<lparr>l_email := Some ''nobody@x.com''\<rparr>)))
     (patients sample_store) = None"
    by (simp add: sample_login_def sample_store_def Patient_findOne_def)
  have w: "\<not> bcrypt_compare sample_env (the (l_password (sample_login\<lparr>l_password := Some ''guess''\<rparr>)))
     (p_password (hd (patients sample_store)))"
    by (simp add: sample_login_def sample_store_def sample_env_def)
  have d: "Doctor_findOne (the (l_email (sample_login\<lparr>l_email := Some ''a@x.com''\<rparr>)))
     (doctors sample_store) = Some (hd (doctors sample_store))"
    by (simp add: sample_login_def sample_store_def Doctor_findOne_def)
  have v: "secret sample_env = ''mysecret''" "now sample_env = 1000"
    "p_id (hd (patients sample_store)) = 2" "d_id (hd (doctors sample_store)) = 0"
    by (simp_all add: secret_def sample_env_def sample_store_def truthy_str_def)
  note 1 = login_outcomes [OF n, of sample_login sample_store sample_env]
  note 2 = login_outcomes [OF n, of "sample_login\<lparr>l_email := Some ''nobody@x.com''\<rparr>" sample_store sample_env]
  note 3 = login_outcomes [OF n, of "sample_login\<lparr>l_password := Some ''guess''\<rparr>" sample_store sample_env]
  note 4 = login_outcomes [OF n, of "sample_login\<lparr>l_email := Some ''a@x.com''\<rparr>" sample_store sample_env]
  have a1: "status (fst (loginPatient sample_env None sample_login sample_store)) = 200 \<and>
   field ''token'' (body (fst (loginPatient sample_env None sample_login sample_store))) =
     Some (JToken \<lparr>claims = PatientId 2, iat = 1000, exp = 4600, signed_with = ''mysecret''\<rparr>)"
    using 1 t p c v by simp
  have a2: "loginPatient sample_env None (sample_login\<lparr>l_email := Some ''nobody@x.com''\<rparr>) sample_store =
     (message 401 ''Patient not found.'', sample_store)"
    using 2 q by (simp add: sample_login_def truthy_str_def)
  have a3: "loginPatient sample_env None (sample_login\<lparr>l_password := Some ''guess''\<rparr>) sample_store =
     (message 401 ''Invalid password.'', sample_store)"
    using 3 p w by (simp add: sample_login_def truthy_str_def)
  have a4: "field ''token'' (body (fst (loginDoctor sample_env None
       (sample_login\<lparr>l_email := Some ''a@x.com''\<rparr>) sample_store))) =
     Some (JToken \<lparr>claims = DoctorId 0, iat = 1000, exp = 4600, signed_with = ''mysecret''\<rparr>)"
    using 4 d v by (simp add: sample_login_def sample_store_def sample_env_def)
  from t p c a1 q a2 w a3 d a4 show ?thesis by blast
qed

text \<open>
  C5 as stated fails: a patient login with an unknown email and no password is answered
  400 "Email and password required.", not with the not-found error.
\<close>

theorem login_not_found_counterexample:
  "Patient_findOne ''nobody@x.com'' (patients sample_store) = None \<and>
   loginPatient sample_env None \<lparr>l_email = Some ''nobody@x.com'', l_password = None\<rparr> sample_store =
     (message 400 ''Email and password required.'', sample_store) \<and>
   fst (loginPatient sample_env None \<lparr>l_email = Some ''nobody@x.com'', l_password = None\<rparr>
          sample_store) \<noteq> message 401 ''Patient not found.''"
  by (simp add: loginPatient_def sample_store_def Patient_findOne_def truthy_str_def message_def)

subsection \<open>Availability\<close>

text \<open>
  C4 (as amended). After a \<open>setAvailability\<close> request that is answered 200, an authenticated
  get on the same doctor is answered 200 with one entry for each entry that was set, in
  the same order. Each returned entry has the day, the start time and the end time of the
  entry set, and its location, or "Office" when the entry set had none. Each returned
  entry has an \<^verbatim>\<open>_id\<close>, the one the entry set carried when it carried one, and has no key
  but these five. (The entries of a request body are those of \<open>availability_in\<close>: the
  declared paths hold strings.)
\<close>

theorem availability_round_trip:
  assumes accepted: "status (fst (setAvailability e f token b s)) = 200"
    and authed: "authenticateToken e' token' = None"
    and got: "r = fst (getAvailability e' None token' (the (sa_doctorId b))
                        (snd (setAvailability e f token b s)))"
    and sent: "xs = the (sa_availability b)"
  shows "status r = 200 \<and>
         field ''availability'' (body r) = Some (JArr (availability_of r)) \<and>
         map (field ''day'') (availability_of r) =
           map (\<lambda>x. field ''day'' (availability_in_json x)) xs \<and>
         map (field ''startTime'') (availability_of r) =
           map (\<lambda>x. field ''startTime'' (availability_in_json x)) xs \<and>
         map (field ''endTime'') (availability_of r) =
           map (\<lambda>x. field ''endTime'' (availability_in_json x)) xs \<and>
         map (field ''location'') (availability_of r) =
           map (\<lambda>x. case field ''location'' (availability_in_json x) of
                       None \<Rightarrow> Some (JStr ''Office'') | Some l \<Rightarrow> Some l) xs \<and>
         list_all2 (\<lambda>x y. field ''_id'' y \<noteq> None \<and>
                           (in_id x \<noteq> None \<longrightarrow>
                              field ''_id'' y = field ''_id'' (availability_in_json x)))
           xs (availability_of r) \<and>
         (\<forall>y \<in> set (availability_of r). \<forall>k. field k y \<noteq> None \<longrightarrow>
            k \<in> set [''_id'', ''day'', ''startTime'', ''endTime'', ''location''])"
proof -
  let ?s' = "snd (setAvailability e f token b s)"
  let ?did = "the (sa_doctorId b)"
  from setAvailability_accepted [OF accepted] obtain doctor cast where
    found: "Doctor_findById ?did (doctors s) = Some doctor"
    and cast: "cast_availability (next_id s) (the (sa_availability b)) = Some cast"
    and upd: "doctors ?s' =
      updateOne (\<lambda>d. d_id d = d_id doctor) (\<lambda>d. d\<lparr>d_availability := fst cast\<rparr>) (doctors s)"
    by blast
  from found have idd: "d_id doctor = ?did"
    unfolding Doctor_findById_def by (rule find_Some_holds)
  have found': "Doctor_findById ?did (doctors ?s') = Some (doctor\<lparr>d_availability := fst cast\<rparr>)"
    using found unfolding Doctor_findById_def upd idd
    by (subst find_updateOne) simp_all
  have r: "r = \<lparr>status = 200,
                body = JObj [(''availability'', JArr (map availability_json (fst cast)))]\<rparr>"
    unfolding got using authed found' by (simp add: getAvailability_def)
  have av: "availability_of r = map availability_json (fst cast)"
    unfolding r by (simp add: availability_of_def field_def)
  note entries = cast_availability_entries [OF cast, folded sent]
  have day: "map (\<lambda>a. field ''day'' (availability_json a)) (fst cast) =
      map (\<lambda>x. field ''day'' (availability_in_json x)) xs"
    using entries
    by (rule list_all2_map_eq)
       (auto simp: field_availability_json field_availability_in_json cast_entry_def
          truthy_str_def split: option.splits)
  have startTime: "map (\<lambda>a. field ''startTime'' (availability_json a)) (fst cast) =
      map (\<lambda>x. field ''startTime'' (availability_in_json x)) xs"
    using entries
    by (rule list_all2_map_eq)
       (auto simp: field_availability_json field_availability_in_json cast_entry_def
          truthy_str_def split: option.splits)
  have endTime: "map (\<lambda>a. field ''endTime'' (availability_json a)) (fst cast) =
      map (\<lambda>x. field ''endTime'' (availability_in_json x)) xs"
    using entries
    by (rule list_all2_map_eq)
       (auto simp: field_availability_json field_availability_in_json cast_entry_def
          truthy_str_def split: option.splits)
  have location: "map (\<lambda>a. field ''location'' (availability_json a)) (fst cast) =
      map (\<lambda>x. case field ''location'' (availability_in_json x) of
                  None \<Rightarrow> Some (JStr ''Office'') | Some l \<Rightarrow> Some l) xs"
    using entries
    by (rule list_all2_map_eq)
       (auto simp: field_availability_json field_availability_in_json cast_entry_def
          split: option.splits)
  have ids: "list_all2 (\<lambda>x y. field ''_id'' y \<noteq> None \<and>
                           (in_id x \<noteq> None \<longrightarrow>
                              field ''_id'' y = field ''_id'' (availability_in_json x)))
           xs (map availability_json (fst cast))"
    unfolding list_all2_map2
    using entries
    by (rule list_all2_mono)
       (auto simp: field_availability_json field_availability_in_json)
  have keys: "\<forall>y \<in> set (map availability_json (fst cast)). \<forall>k. field k y \<noteq> None \<longrightarrow>
            k \<in> set [''_id'', ''day'', ''startTime'', ''endTime'', ''location'']"
    using keys_availability_json by auto
  have "status r = 200" unfolding r by simp
  moreover have "field ''availability'' (body r) = Some (JArr (availability_of r))"
    unfolding av unfolding r by (simp add: field_def)
  ultimately show ?thesis
    unfolding av using day startTime endTime location ids keys by (simp add: comp_def)
qed

theorem availability_round_trip_witness:
  "status (fst (setAvailability sample_env None (Some sample_token) sample_availability
                  sample_store)) = 200 \<and>
   authenticateToken sample_env (Some sample_token) = None \<and>
   status (fst (getAvailability sample_env None (Some sample_token) 0
          (snd (setAvailability sample_env None (Some sample_token) sample_availability
                  sample_store)))) = 200 \<and>
   map (field ''day'') (availability_of (fst (getAvailability sample_env None (Some sample_token) 0
          (snd (setAvailability sample_env None (Some sample_token) sample_availability
                  sample_store))))) =
     [Some (JStr ''Tue''), Some (JStr ''Wed''), Some (JStr ''Fri'')] \<and>
   map (field ''location'') (availability_of (fst (getAvailability sample_env None
          (Some sample_token) 0
          (snd (setAvailability sample_env None (Some sample_token) sample_availability
                  sample_store))))) =
     [Some (JStr ''Office''), Some (JStr ''Clinic''), Some (JStr ''Annex'')]"
proof -
  have xs: "the (sa_availability sample_availability) = the (sa_availability sample_availability)"
    and d: "the (sa_doctorId sample_availability) = 0"
    by (simp_all add: sample_availability_def)
  note t = availability_round_trip [OF sample_availability_accepted sample_token_accepted refl refl,
      unfolded d]
  have day: "map (\<lambda>x. field ''day'' (availability_in_json x)) (the (sa_availability sample_availability)) =
      [Some (JStr ''Tue''), Some (JStr ''Wed''), Some (JStr ''Fri'')]"
    by (simp add: sample_availability_def field_availability_in_json)
  have loc: "map (\<lambda>x. case field ''location'' (availability_in_json x) of
                       None \<Rightarrow> Some (JStr ''Office'') | Some l \<Rightarrow> Some l)
        (the (sa_availability sample_availability)) =
      [Some (JStr ''Office''), Some (JStr ''Clinic''), Some (JStr ''Annex'')]"
    by (simp add: sample_availability_def field_availability_in_json)
  from t day loc sample_availability_accepted sample_token_accepted show ?thesis by simp
qed

text \<open>
  C4 as stated fails: an accepted list does not come back as it was set. An entry set
  without a location comes back with the schema's default location, and each entry comes
  back with an \<^verbatim>\<open>_id\<close>, also when it was set without one.
\<close>

theorem availability_round_trip_counterexample:
  "status (fst (setAvailability sample_env None (Some sample_token) sample_availability
                  sample_store)) = 200 \<and>
   map (field ''location'') (availability_of (fst (getAvailability sample_env None
          (Some sample_token) 0
          (snd (setAvailability sample_env None (Some sample_token) sample_availability
                  sample_store))))) \<noteq>
     map (field ''location'') (map availability_in_json (the (sa_availability sample_availability))) \<and>
   availability_of (fst (getAvailability sample_env None (Some sample_token) 0
          (snd (setAvailability sample_env None (Some sample_token) sample_availability
                  sample_store)))) \<noteq>
     map availability_in_json (the (sa_availability sample_availability))"
  by (simp add: setAvailability_def getAvailability_def sample_token_accepted
      sample_availability_def sample_store_def truthy_ref_def Doctor_findById_def
      cast_entry_def truthy_str_def availability_json_def availability_of_def field_def
      availability_in_json_def opt_field_def declared_keys_def)

subsection \<open>Cancellation\<close>

text \<open>
  C2. Cancellation is all-or-nothing. A request that is not answered 200 leaves the whole
  database as it was; so does one in which the lookup, the delete or the detach rejects,
  and it is not answered 200. An authenticated request whose appointmentId resolves to no
  appointment is answered 404 and changes nothing. A request answered 200 has applied
  both writes: the delete of the appointment and the \<^verbatim>\<open>$pull\<close> on the patient named in
  the body.
\<close>

theorem cancellation_all_or_nothing:
  "(status (fst (cancelAppointment e f token b s)) \<noteq> 200 \<longrightarrow>
      snd (cancelAppointment e f token b s) = s) \<and>
   (f = Some 1 \<or> f = Some 2 \<or> f = Some 3 \<longrightarrow>
      status (fst (cancelAppointment e f token b s)) \<noteq> 200 \<and>
      snd (cancelAppointment e f token b s) = s) \<and>
   (authenticateToken e token = None \<and> c_appointmentId b \<noteq> None \<and> f \<noteq> Some 1 \<and>
    Appointment_findById (the (c_appointmentId b)) (appointments s) = None \<longrightarrow>
      cancelAppointment e f token b s = (message 404 ''Appointment not found.'', s)) \<and>
   (status (fst (cancelAppointment e f token b s)) = 200 \<longrightarrow>
      snd (cancelAppointment e f token b s) =
        s\<lparr>appointments :=
             Appointment_findByIdAndDelete (the (c_appointmentId b)) (appointments s),
          patients :=
             Patient_pull (keeps_appointments e) (c_patientId b) (the (c_appointmentId b))
               (patients s)\<rparr>)"
proof (intro conjI impI)
  assume "status (fst (cancelAppointment e f token b s)) \<noteq> 200"
  then show "snd (cancelAppointment e f token b s) = s" by (rule cancel_not_ok)
next
  assume h: "f = Some 1 \<or> f = Some 2 \<or> f = Some 3"
  then show n: "status (fst (cancelAppointment e f token b s)) \<noteq> 200" by (rule cancel_fault)
  then show "snd (cancelAppointment e f token b s) = s" by (rule cancel_not_ok)
next
  assume "authenticateToken e token = None \<and> c_appointmentId b \<noteq> None \<and> f \<noteq> Some 1 \<and>
    Appointment_findById (the (c_appointmentId b)) (appointments s) = None"
  then show "cancelAppointment e f token b s = (message 404 ''Appointment not found.'', s)"
    by (auto simp: cancel_defs truthy_ref_def split: option.splits)
next
  assume "status (fst (cancelAppointment e f token b s)) = 200"
  then show "snd (cancelAppointment e f token b s) =
        s\<lparr>appointments :=
             Appointment_findByIdAndDelete (the (c_appointmentId b)) (appointments s),
          patients :=
             Patient_pull (keeps_appointments e) (c_patientId b) (the (c_appointmentId b))
               (patients s)\<rparr>"
    by (rule cancel_ok)
qed

theorem cancellation_all_or_nothing_witness:
  "status (fst (cancelAppointment sample_env (Some 3) (Some sample_token) sample_cancel
                  sample_store)) = 500 \<and>
   snd (cancelAppointment sample_env (Some 3) (Some sample_token) sample_cancel sample_store) =
     sample_store \<and>
   Appointment_findById (the (c_appointmentId (sample_cancel\<lparr>c_appointmentId := Some 9\<rparr>)))
     (appointments sample_store) = None \<and>
   cancelAppointment sample_env None (Some sample_token)
     (sample_cancel\<lparr>c_appointmentId := Some 9\<rparr>) sample_store =
     (message 404 ''Appointment not found.'', sample_store) \<and>
   status (fst (cancelAppointment sample_env None (Some sample_token) sample_cancel
                  sample_store)) = 200 \<and>
   map a_id (appointments (snd (cancelAppointment sample_env None (Some sample_token)
                                  sample_cancel sample_store))) = [4] \<and>
   map p_appointments (patients (snd (cancelAppointment sample_env None (Some sample_token)
                                        sample_cancel sample_store))) = [[4], []]"
proof -
  have a: "status (fst (cancelAppointment sample_env (Some 3) (Some sample_token) sample_cancel
                  sample_store)) = 500"
    by (simp add: cancel_defs sample_token_accepted sample_cancel_def sample_store_def
        truthy_ref_def Appointment_findById_def)
  have b: "Appointment_findById (the (c_appointmentId (sample_cancel\<lparr>c_appointmentId := Some 9\<rparr>)))
     (appointments sample_store) = None"
    by (simp add: sample_store_def Appointment_findById_def)
  have c: "status (fst (cancelAppointment sample_env None (Some sample_token) sample_cancel
                  sample_store)) = 200"
    by (simp add: cancel_defs sample_token_accepted sample_cancel_def sample_store_def
        truthy_ref_def Appointment_findById_def)
  note 1 = cancellation_all_or_nothing
    [of sample_env "Some 3" "Some sample_token" sample_cancel sample_store]
  note 2 = cancellation_all_or_nothing
    [of sample_env None "Some sample_token" "sample_cancel\<lparr>c_appointmentId := Some 9\<rparr>"
        sample_store]
  note 3 = cancellation_all_or_nothing
    [of sample_env None "Some sample_token" sample_cancel sample_store]
  have a': "snd (cancelAppointment sample_env (Some 3) (Some sample_token) sample_cancel
      sample_store) = sample_store"
    using 1 by simp
  have b': "cancelAppointment sample_env None (Some sample_token)
     (sample_cancel\<lparr>c_appointmentId := Some 9\<rparr>) sample_store =
     (message 404 ''Appointment not found.'', sample_store)"
    using 2 b sample_token_accepted by simp
  from 3 c have c': "snd (cancelAppointment sample_env None (Some sample_token) sample_cancel
      sample_store) =
      sample_store\<lparr>appointments :=
             Appointment_findByIdAndDelete (the (c_appointmentId sample_cancel))
               (appointments sample_store),
          patients :=
             Patient_pull (keeps_appointments sample_env) (c_patientId sample_cancel)
               (the (c_appointmentId sample_cancel)) (patients sample_store)\<rparr>"
    by blast
  have d: "map a_id (appointments (snd (cancelAppointment sample_env None (Some sample_token)
                                  sample_cancel sample_store))) = [4]"
    unfolding c'
    by (simp add: sample_cancel_def sample_store_def Appointment_findByIdAndDelete_def)
  have e: "map p_appointments (patients (snd (cancelAppointment sample_env None (Some sample_token)
                                        sample_cancel sample_store))) = [[4], []]"
    unfolding c'
    by (simp add: sample_cancel_def sample_store_def sample_env_def Patient_pull_def)
  from a a' b b' c d e show ?thesis by blast
qed


text \<open>
  C9. The detach step goes by the patientId of the request body, not by the appointment.
  An authenticated cancellation whose appointmentId resolves to a stored appointment, with
  no call rejecting, is answered 200 whatever the body's patientId is, and removes that
  appointment and no other: the appointments before it and after it stay, in order, and
  when identifiers are distinct no stored appointment has the identifier any more. The
  doctors stay as they are. Of the patients, the first one with the body's patientId has
  the appointment's identifier removed from its back-reference list (when the collection
  keeps that list) and is otherwise unchanged; every other patient, the one who booked
  included, keeps the record it had. With no patientId in the body no patient changes.
\<close>

theorem cancellation_detaches_body_patient:
  assumes authed: "authenticateToken e token = None"
    and given: "c_appointmentId b = Some a"
    and found: "Appointment_findById a (appointments s) = Some appt"
    and nofault: "f \<noteq> Some 1" "f \<noteq> Some 2" "f \<noteq> Some 3"
    and after: "s' = snd (cancelAppointment e f token b s)"
  shows "fst (cancelAppointment e f token b s) =
           message 200 ''Appointment cancelled successfully!'' \<and>
         (\<exists>pre post. appointments s = pre @ appt # post \<and> (\<forall>x \<in> set pre. a_id x \<noteq> a) \<and>
                      appointments s' = pre @ post) \<and>
         (distinct (map a_id (appointments s)) \<longrightarrow> (\<forall>x \<in> set (appointments s'). a_id x \<noteq> a)) \<and>
         doctors s' = doctors s \<and>
         length (patients s') = length (patients s) \<and>
         (\<forall>i < length (patients s).
             Some (p_id (patients s ! i)) \<noteq> c_patientId b \<longrightarrow>
             patients s' ! i = patients s ! i) \<and>
         (\<forall>i < length (patients s).
             Some (p_id (patients s ! i)) = c_patientId b \<and>
             (\<forall>j < i. Some (p_id (patients s ! j)) \<noteq> c_patientId b) \<longrightarrow>
             patients s' ! i =
               (if keeps_appointments e
                then (patients s ! i)\<lparr>p_appointments :=
                                         removeAll a (p_appointments (patients s ! i))\<rparr>
                else patients s ! i)) \<and>
         (\<forall>i < length (patients s).
             (\<exists>j < i. Some (p_id (patients s ! j)) = c_patientId b) \<longrightarrow>
             patients s' ! i = patients s ! i) \<and>
         (c_patientId b = None \<longrightarrow> patients s' = patients s)"
proof -
  let ?P = "\<lambda>x. a_id x = a"
  let ?Q = "\<lambda>p. Some (p_id p) = c_patientId b"
  let ?u = "\<lambda>p. p\<lparr>p_appointments := removeAll a (p_appointments p)\<rparr>"
  have run: "cancelAppointment e f token b s =
      (message 200 ''Appointment cancelled successfully!'',
       s\<lparr>appointments := deleteOne ?P (appointments s),
         patients := Patient_pull (keeps_appointments e) (c_patientId b) a (patients s)\<rparr>)"
    using authed given found nofault
    by (simp add: cancel_defs truthy_ref_def Appointment_findByIdAndDelete_def)
  have apps: "appointments s' = deleteOne ?P (appointments s)"
    and pats: "patients s' = Patient_pull (keeps_appointments e) (c_patientId b) a (patients s)"
    and docs: "doctors s' = doctors s"
    unfolding after run by simp_all
  from found have fnd: "List.find ?P (appointments s) = Some appt"
    by (simp add: Appointment_findById_def)
  from deleteOne_split [OF fnd] obtain pre post where
    split: "appointments s = pre @ appt # post" "\<forall>x \<in> set pre. a_id x \<noteq> a"
      "deleteOne ?P (appointments s) = pre @ post" by blast
  from fnd have ida: "a_id appt = a" by (rule find_Some_holds)
  have gone: "\<forall>x \<in> set (appointments s'). a_id x \<noteq> a"
    if "distinct (map a_id (appointments s))"
  proof
    fix x
    assume "x \<in> set (appointments s')"
    then have "x \<in> set (pre @ post)"
      using apps split(3) by simp
    then have "a_id x \<in> a_id ` set (pre @ post)" by (rule imageI)
    moreover from that have "a_id appt \<notin> a_id ` set (pre @ post)"
      unfolding split(1) by auto
    ultimately have "a_id x \<noteq> a_id appt" by metis
    then show "a_id x \<noteq> a" by (simp add: ida)
  qed
  have first: "patients s' ! i =
      (if keeps_appointments e then ?u (patients s ! i) else patients s ! i)"
    if "i < length (patients s)" "?Q (patients s ! i)" "\<forall>j < i. \<not> ?Q (patients s ! j)" for i
    using that unfolding pats Patient_pull_def
    by (simp add: updateOne_nth_first [where P = ?Q])
  have later: "patients s' ! i = patients s ! i"
    if "i < length (patients s)" "\<exists>j < i. ?Q (patients s ! j)" for i
  proof -
    from that(2) obtain j where "j < i" "?Q (patients s ! j)" by blast
    with that(1) show ?thesis unfolding pats Patient_pull_def
      by (simp add: updateOne_nth_later [where P = ?Q and j = j])
  qed
  note frame = Patient_pull_frame [of "keeps_appointments e" "c_patientId b" a "patients s"]
  show ?thesis
  proof (intro conjI)
    show "fst (cancelAppointment e f token b s) =
        message 200 ''Appointment cancelled successfully!''"
      unfolding run by simp
    show "\<exists>pre post. appointments s = pre @ appt # post \<and> (\<forall>x \<in> set pre. a_id x \<noteq> a) \<and>
        appointments s' = pre @ post"
      using split unfolding apps by blast
    show "distinct (map a_id (appointments s)) \<longrightarrow> (\<forall>x \<in> set (appointments s'). a_id x \<noteq> a)"
      using gone by blast
    show "doctors s' = doctors s" by (rule docs)
    show "length (patients s') = length (patients s)"
      unfolding pats using frame by blast
    show "\<forall>i < length (patients s).
        Some (p_id (patients s ! i)) \<noteq> c_patientId b \<longrightarrow> patients s' ! i = patients s ! i"
      unfolding pats using frame by blast
    show "\<forall>i < length (patients s).
        Some (p_id (patients s ! i)) = c_patientId b \<and>
        (\<forall>j < i. Some (p_id (patients s ! j)) \<noteq> c_patientId b) \<longrightarrow>
        patients s' ! i =
          (if keeps_appointments e
           then (patients s ! i)\<lparr>p_appointments := removeAll a (p_appointments (patients s ! i))\<rparr>
           else patients s ! i)"
      using first by blast
    show "\<forall>i < length (patients s).
        (\<exists>j < i. Some (p_id (patients s ! j)) = c_patientId b) \<longrightarrow>
        patients s' ! i = patients s ! i"
      using later by blast
    show "c_patientId b = None \<longrightarrow> patients s' = patients s"
      unfolding pats using frame by blast
  qed
qed

text \<open>
  On the sample store Carol's appointment is the second of two. Cancelled with Bob's
  patientId in the body, it is removed and Bob's appointment stays; Carol's record, the
  back-reference to the removed appointment included, is what it was. Cancelled with
  Carol's patientId, her list loses the identifier.
\<close>

theorem cancellation_detaches_body_patient_witness:
  "authenticateToken sample_env (Some sample_token) = None \<and>
   Appointment_findById 5 (appointments sample_store) = Some (appointments sample_store ! 1) \<and>
   Some (p_id (patients sample_store ! 1)) \<noteq> c_patientId (sample_cancel\<lparr>c_patientId := Some 2\<rparr>) \<and>
   fst (cancelAppointment sample_env None (Some sample_token)
          (sample_cancel\<lparr>c_patientId := Some 2\<rparr>) sample_store) =
     message 200 ''Appointment cancelled successfully!'' \<and>
   appointments (snd (cancelAppointment sample_env None (Some sample_token)
                        (sample_cancel\<lparr>c_patientId := Some 2\<rparr>) sample_store)) =
     [appointments sample_store ! 0] \<and>
   patients (snd (cancelAppointment sample_env None (Some sample_token)
                    (sample_cancel\<lparr>c_patientId := Some 2\<rparr>) sample_store)) ! 1 =
     patients sample_store ! 1 \<and>
   p_appointments (patients sample_store ! 1) = [5] \<and>
   p_appointments (patients (snd (cancelAppointment sample_env None (Some sample_token)
                    (sample_cancel\<lparr>c_patientId := Some 2\<rparr>) sample_store)) ! 0) = [4] \<and>
   Some (p_id (patients sample_store ! 1)) = c_patientId sample_cancel \<and>
   patients (snd (cancelAppointment sample_env None (Some sample_token) sample_cancel
                    sample_store)) ! 1 =
     (patients sample_store ! 1)\<lparr>p_appointments := []\<rparr>"
proof -
  let ?b = "sample_cancel\<lparr>c_patientId := Some 2\<rparr>"
  have g: "c_appointmentId ?b = Some 5" "c_appointmentId sample_cancel = Some 5"
    by (simp_all add: sample_cancel_def)
  have fnd: "Appointment_findById 5 (appointments sample_store) =
      Some (appointments sample_store ! 1)"
    by (simp add: sample_store_def Appointment_findById_def)
  have n: "(None :: nat option) \<noteq> Some 1" "(None :: nat option) \<noteq> Some 2"
    "(None :: nat option) \<noteq> Some 3" by simp_all
  have other: "Some (p_id (patients sample_store ! 1)) \<noteq> c_patientId ?b"
    by (simp add: sample_store_def sample_cancel_def)
  have named: "Some (p_id (patients sample_store ! 1)) = c_patientId sample_cancel"
    and only: "\<forall>j < 1. Some (p_id (patients sample_store ! j)) \<noteq> c_patientId sample_cancel"
    by (simp_all add: sample_store_def sample_cancel_def)
  have l: "1 < length (patients sample_store)" by (simp add: sample_store_def)
  have keeps: "keeps_appointments sample_env" by (simp add: sample_env_def)
  have list: "p_appointments (patients sample_store ! 1) = [5]"
    by (simp add: sample_store_def)
  note t = cancellation_detaches_body_patient [OF sample_token_accepted g(1) fnd n refl]
  note u = cancellation_detaches_body_patient [OF sample_token_accepted g(2) fnd n refl]
  from t have r: "fst (cancelAppointment sample_env None (Some sample_token) ?b sample_store) =
     message 200 ''Appointment cancelled successfully!''" by blast
  from t obtain pre post where
    split: "appointments sample_store = pre @ (appointments sample_store ! 1) # post"
      "\<forall>x \<in> set pre. a_id x \<noteq> 5"
      "appointments (snd (cancelAppointment sample_env None (Some sample_token) ?b
          sample_store)) = pre @ post"
    by blast
  from split(1,2) have "pre = [appointments sample_store ! 0] \<and> post = []"
    by (cases pre; cases "tl pre") (auto simp: sample_store_def)
  with split(3) have d: "appointments (snd (cancelAppointment sample_env None (Some sample_token)
      ?b sample_store)) = [appointments sample_store ! 0]" by simp
  from t other l have same: "patients (snd (cancelAppointment sample_env None (Some sample_token)
      ?b sample_store)) ! 1 = patients sample_store ! 1" by blast
  have bob: "p_appointments (patients (snd (cancelAppointment sample_env None (Some sample_token)
      ?b sample_store)) ! 0) = [4]"
    using t by (simp add: sample_store_def sample_cancel_def sample_env_def)
  from u have first: "\<forall>i < length (patients sample_store).
             Some (p_id (patients sample_store ! i)) = c_patientId sample_cancel \<and>
             (\<forall>j < i. Some (p_id (patients sample_store ! j)) \<noteq> c_patientId sample_cancel) \<longrightarrow>
             patients (snd (cancelAppointment sample_env None (Some sample_token) sample_cancel
                              sample_store)) ! i =
               (if keeps_appointments sample_env
                then (patients sample_store ! i)\<lparr>p_appointments :=
                       removeAll 5 (p_appointments (patients sample_store ! i))\<rparr>
                else patients sample_store ! i)"
    by blast
  from first [rule_format, of 1] named only l keeps
  have "patients (snd (cancelAppointment sample_env None
      (Some sample_token) sample_cancel sample_store)) ! 1 =
      (patients sample_store ! 1)\<lparr>p_appointments :=
         removeAll 5 (p_appointments (patients sample_store ! 1))\<rparr>"
    by simp
  then have carol: "patients (snd (cancelAppointment sample_env None (Some sample_token)
      sample_cancel sample_store)) ! 1 = (patients sample_store ! 1)\<lparr>p_appointments := []\<rparr>"
    using list by simp
  from sample_token_accepted fnd other r d same list bob named carol show ?thesis by blast
qed

subsection \<open>Invariants of the store and of the responses\<close>

text \<open>
  C10. In every store the server reaches from the empty database, by any sequence of
  requests to its endpoints and with any awaited call rejecting, every appointment has
  status "Booked": booking creates it so, cancellation removes the record, and no other
  endpoint writes appointments.
\<close>

theorem every_appointment_is_booked:
  "\<forall>a \<in> set (appointments (run cs init_store)). a_status a = ''Booked''"
  by (rule run_keeps_booked) (simp add: init_store_def)

theorem every_appointment_is_booked_witness:
  "appointments (run sample_history init_store) \<noteq> [] \<and>
   a_status (hd (appointments (run sample_history init_store))) = ''Booked''"
proof -
  have ne: "appointments (run sample_history init_store) \<noteq> []"
    by (simp add: sample_store_reachable sample_store_def)
  then have "hd (appointments (run sample_history init_store)) \<in>
      set (appointments (run sample_history init_store))" by simp
  with every_appointment_is_booked [of sample_history] ne show ?thesis by blast
qed

text \<open>
  C6. No response of any endpoint, success or error, has a \<^verbatim>\<open>password\<close> key at any depth;
  and \<open>searchDoctors\<close> answers with every stored doctor, each with all the paths of its
  document but the password.
\<close>

theorem no_response_has_password:
  "\<not> has_field ''password'' (body (fst (handle e f r s))) \<and>
   fst (searchDoctors None s) =
     \<lparr>status = 200,
      body = JArr (map (\<lambda>d. JObj [(''_id'', JId (d_id d)), (''name'', JStr (d_name d)),
                                   (''email'', JStr (d_email d)),
                                   (''specialty'', JStr (specialty d)),
                                   (''experience'', JNum (experience d)),
                                   (''location'', JStr (d_location d)),
                                   (''availability'',
                                    JArr (map availability_json (d_availability d)))])
                       (doctors s))\<rparr>"
proof
  show "\<not> has_field ''password'' (body (fst (handle e f r s)))"
    by (cases r)
       (simp_all add: registerDoctor_no_password registerPatient_no_password
          loginPatient_no_password loginDoctor_no_password getAvailability_no_password
          setAvailability_no_password bookAppointment_no_password cancelAppointment_no_password
          searchDoctors_no_password)
  show "fst (searchDoctors None s) =
     \<lparr>status = 200,
      body = JArr (map (\<lambda>d. JObj [(''_id'', JId (d_id d)), (''name'', JStr (d_name d)),
                                   (''email'', JStr (d_email d)),
                                   (''specialty'', JStr (specialty d)),
                                   (''experience'', JNum (experience d)),
                                   (''location'', JStr (d_location d)),
                                   (''availability'',
                                    JArr (map availability_json (d_availability d)))])
                       (doctors s))\<rparr>"
    by (simp add: searchDoctors_def select_minus_def doctor_doc_def)
qed

theorem no_response_has_password_witness:
  "has_field_obj ''password'' (doctor_doc (hd (doctors sample_store))) \<and>
   \<not> has_field ''password'' (body (fst (handle sample_env None SearchDoctors sample_store))) \<and>
   fst (searchDoctors None sample_store) =
     \<lparr>status = 200,
      body = JArr [JObj [(''_id'', JId 0), (''name'', JStr ''Dr. A''),
                         (''email'', JStr ''a@x.com''), (''specialty'', JStr ''Cardio''),
                         (''experience'', JNum 5), (''location'', JStr ''NYC''),
                         (''availability'',
                          JArr [JObj [(''_id'', JId 1), (''day'', JStr ''Mon''),
                                      (''startTime'', JStr ''09:00''),
                                      (''endTime'', JStr ''10:00''),
                                      (''location'', JStr ''Office'')]])]]\<rparr>"
  using no_response_has_password [of sample_env None SearchDoctors sample_store]
  by (simp add: sample_store_def doctor_doc_def availability_json_def)

subsection \<open>Bookings in flight together\<close>

text \<open>Run alone, the three steps of a booking are the handler.\<close>

lemma book_steps_are_bookAppointment:
  "book_step e f b (book_step e f b (book_step e f b (Start, s))) =
     (Finished (fst (bookAppointment e f b s)), snd (bookAppointment e f b s))"
  by (simp add: book_step_def bookAppointment_def Let_def split: option.split)

text \<open>
  C3 does not hold of the handler. Two identical bookings on an empty database, resumed
  alternately so that both lookups are answered before either save, are both answered
  201 and leave two appointments with the same doctorId and timeSlot. Resumed one after
  the other, the first is answered 201 and the second 400 "Time slot already booked!".
\<close>

theorem concurrent_bookings_both_succeed:
  "run_schedule sample_env [0, 1, 0, 1, 0, 1]
     ([(sample_booking, Start), (sample_booking, Start)], init_store) =
   ([(sample_booking, Finished (booked (new_Appointment sample_booking 0))),
     (sample_booking, Finished (booked (new_Appointment sample_booking 1)))],
    init_store\<lparr>appointments := [new_Appointment sample_booking 0, new_Appointment sample_booking 1],
               next_id := 2\<rparr>) \<and>
   doctorId (new_Appointment sample_booking 0) = doctorId (new_Appointment sample_booking 1) \<and>
   timeSlot (new_Appointment sample_booking 0) = timeSlot (new_Appointment sample_booking 1) \<and>
   run_schedule sample_env [0, 0, 0, 1, 1, 1]
     ([(sample_booking, Start), (sample_booking, Start)], init_store) =
   ([(sample_booking, Finished (booked (new_Appointment sample_booking 0))),
     (sample_booking, Finished (message 400 ''Time slot already booked!''))],
    init_store\<lparr>appointments := [new_Appointment sample_booking 0], next_id := 1\<rparr>)"
  by (simp add: book_step_def sample_booking_def sample_env_def init_store_def truthy_ref_def
      truthy_str_def Appointment_findOne_def new_Appointment_def Patient_push_def Let_def)

end
